theory Spec2Isabelle
  imports Main
begin

section \<open>JavaScript values and the object store\<close>

text \<open>
  The wrapper of \<^verbatim>\<open>src/common/ui-wrapper.js\<close> only moves configuration values
  around: it reads properties, tests truthiness, builds a handful of object literals and
  calls the UI manager, the logger, the DOM and the playkit utilities. Values are modelled
  with the distinctions the code can observe: the falsy primitives, plain objects living
  in a store (so that mutation and freshness can be stated), and host objects (DOM
  elements, arrays, class instances, functions) known by identity only.
\<close>

type_synonym addr = nat

datatype jsval =
    JUndefined
  | JNull
  | JBool bool
  | JNum int
  | JNaN
  | JStr string
  | JRef addr
  | JHost nat

type_synonym jsobj = "(string \<times> jsval) list"

type_synonym heap = "jsobj list"

datatype error = TypeError | Unmodelled

datatype 'a outcome = Return 'a | Throw error

fun truthy :: "jsval \<Rightarrow> bool" where
  "truthy JUndefined = False"
| "truthy JNull = False"
| "truthy (JBool b) = b"
| "truthy (JNum n) = (n \<noteq> 0)"
| "truthy JNaN = False"
| "truthy (JStr s) = (s \<noteq> [])"
| "truthy (JRef a) = True"
| "truthy (JHost n) = True"

fun is_prim :: "jsval \<Rightarrow> bool" where
  "is_prim (JRef a) = False"
| "is_prim (JHost n) = False"
| "is_prim v = True"

text \<open>An object literal allocates a fresh plain object at the end of the store.\<close>

definition alloc :: "heap \<Rightarrow> jsobj \<Rightarrow> heap \<times> jsval" where
  "alloc h obj = (h @ [obj], JRef (length h))"

text \<open>The own properties of a plain object; nothing for any other value.\<close>

fun own :: "heap \<Rightarrow> jsval \<Rightarrow> string \<Rightarrow> jsval option" where
  "own h (JRef a) k = (if a < length h then map_of (h ! a) k else None)"
| "own h v k = None"

text \<open>A call argument that was not passed is \<^verbatim>\<open>undefined\<close>.\<close>

definition arg :: "nat \<Rightarrow> jsval list \<Rightarrow> jsval" where
  "arg n args = (if n < length args then args ! n else JUndefined)"

section \<open>The world outside the wrapper\<close>

datatype mgr_call =
    BuildCustomUI jsval
  | BuildDefaultUI
  | MgrDestroy
  | MgrSetConfig jsval jsval
  | MgrAddComponent jsval
  | MgrRegisterManager jsval jsval
  | MgrGetManager jsval
  | MgrHasManager jsval

text \<open>
  Every call the wrapper makes on something it does not own is an event: the
  \<^verbatim>\<open>UIManager\<close> constructor and methods, the stylesheet loader, the logger
  and the one DOM mutation \<^verbatim>\<open>appendChild\<close>.
\<close>

datatype event =
    NewUIManager nat jsval jsval
  | MgrCall nat mgr_call
  | LoadStyleSheetAsync jsval
  | LoggerDebug string
  | LoggerError string
  | AppendChild nat jsval

text \<open>
  The handler pair that line 106 attaches with \<^verbatim>\<open>.then(onFulfilled, onRejected)\<close>
  to the promise of the stylesheet load; it runs when that promise settles.
\<close>

datatype reaction = ExternalCssThen

datatype settlement = Fulfilled jsval | Rejected jsval

record world =
  heap :: heap
  trace :: "event list"
  pending :: "reaction list"

text \<open>
  What the imported modules provide is a parameter of the model: the \<^verbatim>\<open>Env\<close>
  flags, the document, the view a player object answers to \<^verbatim>\<open>getView()\<close> (none
  when the object has no such method), the playkit object utilities, the thumbnail
  helpers and constants of \<^verbatim>\<open>./utils/thumbs\<close>, the properties of host objects,
  and what a UI manager answers to a call after a given history.
\<close>

record env =
  isMobile :: bool
  isTablet :: bool
  getElementById :: "jsval \<Rightarrow> nat option"
  getView :: "nat \<Rightarrow> jsval option"
  host_prop :: "nat \<Rightarrow> string \<Rightarrow> jsval"
  getPropertyPath :: "heap \<Rightarrow> jsval \<Rightarrow> string \<Rightarrow> jsval"
  mergeDeep :: "heap \<Rightarrow> jsval \<Rightarrow> jsval list \<Rightarrow> heap \<times> jsval"
  getThumbSlicesUrl :: "heap \<Rightarrow> jsval \<Rightarrow> jsval \<Rightarrow> jsval"
  DEFAULT_THUMBS_WIDTH :: int
  DEFAULT_THUMBS_SLICES :: int
  mgr_result :: "event list \<Rightarrow> nat \<Rightarrow> mgr_call \<Rightarrow> jsval"

text \<open>
  Reading \<^verbatim>\<open>v.k\<close>: a \<^verbatim>\<open>TypeError\<close> on \<^verbatim>\<open>undefined\<close> and
  \<^verbatim>\<open>null\<close>, the own property of a plain object or \<^verbatim>\<open>undefined\<close>, and
  \<^verbatim>\<open>undefined\<close> on the other primitives (none of the names the wrapper reads
  is a built-in property of a boolean, a number or a string).
\<close>

fun getp :: "env \<Rightarrow> heap \<Rightarrow> jsval \<Rightarrow> string \<Rightarrow> error + jsval" where
  "getp e h JUndefined k = Inl TypeError"
| "getp e h JNull k = Inl TypeError"
| "getp e h (JRef a) k = Inr (case own h (JRef a) k of Some v \<Rightarrow> v | None \<Rightarrow> JUndefined)"
| "getp e h (JHost n) k = Inr (host_prop e n k)"
| "getp e h v k = Inr JUndefined"

text \<open>
  \<^verbatim>\<open>player.getView()\<close>: a \<^verbatim>\<open>TypeError\<close> when the player is
  \<^verbatim>\<open>undefined\<close> or \<^verbatim>\<open>null\<close>, or when what is read as
  \<^verbatim>\<open>getView\<close> is not a function. A player is a host object; a plain object
  could only carry a function of its own, whose call is outside the model.
\<close>

fun player_getView :: "env \<Rightarrow> heap \<Rightarrow> jsval \<Rightarrow> error + jsval" where
  "player_getView e h (JHost n) =
     (case getView e n of Some view \<Rightarrow> Inr view | None \<Rightarrow> Inl TypeError)"
| "player_getView e h (JRef a) =
     (case own h (JRef a) ''getView'' of
        Some (JHost f) \<Rightarrow> Inl Unmodelled
      | _ \<Rightarrow> Inl TypeError)"
| "player_getView e h v = Inl TypeError"

section \<open>The wrapper object and its proxy\<close>

record wrapper =
  priv_disabled :: bool
  priv_uiManager :: "nat option"

datatype meth =
    M_destroy
  | M_reset
  | M_setConfig
  | M_addComponent
  | M_registerManager
  | M_getManager
  | M_hasManager
  | M_resetErrorState
  | M_setSeekbarConfig
  | M_setLoadingSpinnerState
  | M_handleExternalCSS
  | M_handleVr
  | M_setStereoConfig

fun name_of :: "meth \<Rightarrow> string" where
  "name_of M_destroy = ''destroy''"
| "name_of M_reset = ''reset''"
| "name_of M_setConfig = ''setConfig''"
| "name_of M_addComponent = ''addComponent''"
| "name_of M_registerManager = ''registerManager''"
| "name_of M_getManager = ''getManager''"
| "name_of M_hasManager = ''hasManager''"
| "name_of M_resetErrorState = ''_resetErrorState''"
| "name_of M_setSeekbarConfig = ''setSeekbarConfig''"
| "name_of M_setLoadingSpinnerState = ''setLoadingSpinnerState''"
| "name_of M_handleExternalCSS = ''_handleExternalCSS''"
| "name_of M_handleVr = ''_handleVr''"
| "name_of M_setStereoConfig = ''_setStereoConfig''"

definition all_methods :: "meth list" where
  "all_methods = [M_destroy, M_reset, M_setConfig, M_addComponent, M_registerManager,
     M_getManager, M_hasManager, M_resetErrorState, M_setSeekbarConfig,
     M_setLoadingSpinnerState, M_handleExternalCSS, M_handleVr, M_setStereoConfig]"

definition method_of_name :: "string \<Rightarrow> meth option" where
  "method_of_name p = find (\<lambda>m. name_of m = p) all_methods"

text \<open>
  What a property read can yield: the arrow function \<^verbatim>\<open>() => undefined\<close> of the
  proxy, a method of the class, the value of a field, the UI manager held in
  \<^verbatim>\<open>_uiManager\<close>, or whatever lies beyond the class on the prototype chain.
\<close>

datatype member =
    ConstUndefinedFn
  | MethodFn meth
  | FieldVal jsval
  | ManagerObj nat
  | Inherited string

text \<open>\<^verbatim>\<open>uiw[prop]\<close> on the wrapper object itself.\<close>

definition raw_get :: "wrapper \<Rightarrow> string \<Rightarrow> member" where
  "raw_get w p =
     (if p = ''_uiManager'' then
        (case priv_uiManager w of None \<Rightarrow> FieldVal JUndefined | Some m \<Rightarrow> ManagerObj m)
      else if p = ''_disabled'' then FieldVal (JBool (priv_disabled w))
      else (case method_of_name p of Some m \<Rightarrow> MethodFn m | None \<Rightarrow> Inherited p))"

text \<open>The \<^verbatim>\<open>get\<close> trap of the proxy the constructor returns (lines 32 to 38).\<close>

definition proxy_get :: "wrapper \<Rightarrow> string \<Rightarrow> member" where
  "proxy_get w p = (if priv_disabled w then ConstUndefinedFn else raw_get w p)"

text \<open>
  Inside the constructor \<^verbatim>\<open>this\<close> is the object itself; in a method called on
  what the constructor returned it is the proxy.
\<close>

datatype receiver = Raw | Proxied

definition this_get :: "receiver \<Rightarrow> wrapper \<Rightarrow> string \<Rightarrow> member" where
  "this_get r w p = (case r of Raw \<Rightarrow> raw_get w p | Proxied \<Rightarrow> proxy_get w p)"

type_synonym result = "jsval outcome \<times> wrapper \<times> world"

text \<open>
  \<^verbatim>\<open>this._uiManager.f(...)\<close>: the call is recorded and answered by the manager;
  when \<^verbatim>\<open>this._uiManager\<close> is anything but a manager the call is a
  \<^verbatim>\<open>TypeError\<close>.
\<close>

definition mgr_invoke :: "env \<Rightarrow> member \<Rightarrow> mgr_call \<Rightarrow> wrapper \<Rightarrow> world \<Rightarrow> result" where
  "mgr_invoke e mem c w s =
     (case mem of
        ManagerObj m \<Rightarrow>
          (Return (mgr_result e (trace s) m c), w, s\<lparr>trace := trace s @ [MgrCall m c]\<rparr>)
      | _ \<Rightarrow> (Throw TypeError, w, s))"

text \<open>A method body without a \<^verbatim>\<open>return\<close> statement yields \<^verbatim>\<open>undefined\<close>.\<close>

definition discard :: "result \<Rightarrow> result" where
  "discard r =
     (case r of (Return v, w, s) \<Rightarrow> (Return JUndefined, w, s) | (Throw x, w, s) \<Rightarrow> (Throw x, w, s))"

definition then_do :: "result \<Rightarrow> (jsval \<Rightarrow> wrapper \<Rightarrow> world \<Rightarrow> result) \<Rightarrow> result" where
  "then_do r f = (case r of (Return v, w, s) \<Rightarrow> f v w s | (Throw x, w, s) \<Rightarrow> (Throw x, w, s))"

text \<open>
  \<^verbatim>\<open>this.m(...)\<close> for a method \<^verbatim>\<open>m\<close> of the class: the property is read
  through the receiver, and what was read is called. Through the proxy of a disabled
  wrapper that is the arrow function; a non-function would be a \<^verbatim>\<open>TypeError\<close>.
\<close>

definition this_call :: "receiver \<Rightarrow> wrapper \<Rightarrow> meth \<Rightarrow> (world \<Rightarrow> result) \<Rightarrow> world \<Rightarrow> result" where
  "this_call r w m body s =
     (case this_get r w (name_of m) of
        ConstUndefinedFn \<Rightarrow> (Return JUndefined, w, s)
      | MethodFn m' \<Rightarrow> body s
      | _ \<Rightarrow> (Throw TypeError, w, s))"

section \<open>The methods of \<^verbatim>\<open>UIWrapper\<close>\<close>

definition destroy :: "env \<Rightarrow> receiver \<Rightarrow> wrapper \<Rightarrow> jsval list \<Rightarrow> world \<Rightarrow> result" where
  "destroy e r w args s = discard (mgr_invoke e (this_get r w ''_uiManager'') MgrDestroy w s)"

definition setConfig :: "env \<Rightarrow> receiver \<Rightarrow> wrapper \<Rightarrow> jsval list \<Rightarrow> world \<Rightarrow> result" where
  "setConfig e r w args s =
     discard (mgr_invoke e (this_get r w ''_uiManager'') (MgrSetConfig (arg 0 args) (arg 1 args)) w s)"

definition addComponent :: "env \<Rightarrow> receiver \<Rightarrow> wrapper \<Rightarrow> jsval list \<Rightarrow> world \<Rightarrow> result" where
  "addComponent e r w args s =
     mgr_invoke e (this_get r w ''_uiManager'') (MgrAddComponent (arg 0 args)) w s"

definition registerManager :: "env \<Rightarrow> receiver \<Rightarrow> wrapper \<Rightarrow> jsval list \<Rightarrow> world \<Rightarrow> result" where
  "registerManager e r w args s =
     discard (mgr_invoke e (this_get r w ''_uiManager'')
                (MgrRegisterManager (arg 0 args) (arg 1 args)) w s)"

definition getManager :: "env \<Rightarrow> receiver \<Rightarrow> wrapper \<Rightarrow> jsval list \<Rightarrow> world \<Rightarrow> result" where
  "getManager e r w args s =
     mgr_invoke e (this_get r w ''_uiManager'') (MgrGetManager (arg 0 args)) w s"

definition hasManager :: "env \<Rightarrow> receiver \<Rightarrow> wrapper \<Rightarrow> jsval list \<Rightarrow> world \<Rightarrow> result" where
  "hasManager e r w args s =
     mgr_invoke e (this_get r w ''_uiManager'') (MgrHasManager (arg 0 args)) w s"

definition priv_resetErrorState :: "env \<Rightarrow> receiver \<Rightarrow> wrapper \<Rightarrow> jsval list \<Rightarrow> world \<Rightarrow> result" where
  "priv_resetErrorState e r w args s =
     (let (h1, cfg) = alloc (heap s) [(''hasError'', JBool False)]
      in discard (this_call r w M_setConfig (setConfig e r w [cfg, JStr ''engine''])
                    (s\<lparr>heap := h1\<rparr>)))"

definition reset :: "env \<Rightarrow> receiver \<Rightarrow> wrapper \<Rightarrow> jsval list \<Rightarrow> world \<Rightarrow> result" where
  "reset e r w args s =
     discard (this_call r w M_resetErrorState (priv_resetErrorState e r w []) s)"

text \<open>The second module-level helper (lines 152 to 159): it builds the default object.\<close>

definition getPreviewThumbnailConfig :: "env \<Rightarrow> heap \<Rightarrow> jsval \<Rightarrow> jsval \<Rightarrow> heap \<times> jsval" where
  "getPreviewThumbnailConfig e h mediaConfig seekbarConfig =
     alloc h [(''thumbsSprite'', getThumbSlicesUrl e h mediaConfig seekbarConfig),
              (''thumbsWidth'', JNum (DEFAULT_THUMBS_WIDTH e)),
              (''thumbsSlices'', JNum (DEFAULT_THUMBS_SLICES e))]"

definition setSeekbarConfig :: "env \<Rightarrow> receiver \<Rightarrow> wrapper \<Rightarrow> jsval list \<Rightarrow> world \<Rightarrow> result" where
  "setSeekbarConfig e r w args s =
     (let mediaConfig = arg 0 args;
          uiConfig = arg 1 args;
          seekbarConfig = getPropertyPath e (heap s) uiConfig ''components.seekbar'';
          (h1, previewThumbnailConfig) =
             getPreviewThumbnailConfig e (heap s) mediaConfig seekbarConfig;
          (h2, target) = alloc h1 [];
          (h3, merged) = mergeDeep e h2 target [previewThumbnailConfig, seekbarConfig]
      in discard (this_call r w M_setConfig (setConfig e r w [merged, JStr ''seekbar''])
                    (s\<lparr>heap := h3\<rparr>)))"

definition setLoadingSpinnerState :: "env \<Rightarrow> receiver \<Rightarrow> wrapper \<Rightarrow> jsval list \<Rightarrow> world \<Rightarrow> result" where
  "setLoadingSpinnerState e r w args s =
     (let (h1, cfg) = alloc (heap s) [(''show'', arg 0 args)]
      in discard (this_call r w M_setConfig (setConfig e r w [cfg, JStr ''loading''])
                    (s\<lparr>heap := h1\<rparr>)))"

text \<open>
  Lines 104 to 115. The load is started and the handler pair is attached; nothing is
  awaited, so the method returns with the reaction still pending.
\<close>

definition priv_handleExternalCSS :: "env \<Rightarrow> receiver \<Rightarrow> wrapper \<Rightarrow> jsval list \<Rightarrow> world \<Rightarrow> result" where
  "priv_handleExternalCSS e r w args s =
     (case getp e (heap s) (arg 0 args) ''css'' of
        Inl x \<Rightarrow> (Throw x, w, s)
      | Inr css \<Rightarrow>
          if truthy css then
            (Return JUndefined, w,
             s\<lparr>trace := trace s @ [LoadStyleSheetAsync css],
               pending := pending s @ [ExternalCssThen]\<rparr>)
          else (Return JUndefined, w, s))"

text \<open>
  The two handlers of lines 107 to 112. Each logs once and returns normally, so the
  promise that \<^verbatim>\<open>then\<close> creates is fulfilled with \<^verbatim>\<open>undefined\<close> whichever
  way the load went.
\<close>

fun run_reaction :: "reaction \<Rightarrow> settlement \<Rightarrow> world \<Rightarrow> settlement \<times> world" where
  "run_reaction ExternalCssThen (Fulfilled v) s =
     (Fulfilled JUndefined,
      s\<lparr>trace := trace s @ [LoggerDebug ''external css was loaded successfully'']\<rparr>)"
| "run_reaction ExternalCssThen (Rejected v) s =
     (Fulfilled JUndefined,
      s\<lparr>trace := trace s @ [LoggerError ''external css failed to load'']\<rparr>)"

text \<open>The \<open>i\<close>-th pending load settles: its reaction is taken off the list and run.\<close>

definition settle :: "nat \<Rightarrow> settlement \<Rightarrow> world \<Rightarrow> (settlement \<times> world) option" where
  "settle i out s =
     (if i < length (pending s) then
        Some (run_reaction (pending s ! i) out
                (s\<lparr>pending := take i (pending s) @ drop (Suc i) (pending s)\<rparr>))
      else None)"

definition priv_setStereoConfig :: "env \<Rightarrow> receiver \<Rightarrow> wrapper \<Rightarrow> jsval list \<Rightarrow> world \<Rightarrow> result" where
  "priv_setStereoConfig e r w args s =
     (let vrConfig = arg 0 args in
      case getp e (heap s) vrConfig ''toggleStereo'' of
        Inl x \<Rightarrow> (Throw x, w, s)
      | Inr toggleStereo \<Rightarrow>
          if truthy toggleStereo \<or> ((isMobile e \<or> isTablet e) \<and> toggleStereo \<noteq> JBool False) then
            (case getp e (heap s) vrConfig ''startInStereo'' of
               Inl x \<Rightarrow> (Throw x, w, s)
             | Inr startInStereo \<Rightarrow>
                 (let (h1, target) = alloc (heap s) [];
                      (h2, src) = alloc h1 [(''vrStereoMode'', JBool (truthy startInStereo))];
                      (h3, merged) = mergeDeep e h2 target [src]
                  in discard (this_call r w M_setConfig
                                (setConfig e r w [merged, JStr ''vrStereo''])
                                (s\<lparr>heap := h3\<rparr>))))
          else (Return JUndefined, w, s))"

text \<open>
  Lines 117 to 121. The default parameter \<^verbatim>\<open>config = {}\<close> replaces an
  \<^verbatim>\<open>undefined\<close> argument only; \<^verbatim>\<open>null\<close> is kept and reading its
  \<^verbatim>\<open>vr\<close> throws.
\<close>

definition priv_handleVr :: "env \<Rightarrow> receiver \<Rightarrow> wrapper \<Rightarrow> jsval list \<Rightarrow> world \<Rightarrow> result" where
  "priv_handleVr e r w args s =
     (let (h1, config) = (if arg 0 args = JUndefined then alloc (heap s) []
                          else (heap s, arg 0 args));
          s1 = s\<lparr>heap := h1\<rparr>
      in case getp e h1 config ''vr'' of
           Inl x \<Rightarrow> (Throw x, w, s1)
         | Inr vr \<Rightarrow>
             if truthy vr then
               (case getp e h1 vr ''disable'' of
                  Inl x \<Rightarrow> (Throw x, w, s1)
                | Inr d \<Rightarrow>
                    if \<not> truthy d then
                      discard (this_call r w M_setStereoConfig
                                 (priv_setStereoConfig e r w [vr]) s1)
                    else (Return JUndefined, w, s1))
             else (Return JUndefined, w, s1))"

text \<open>The first module-level helper (lines 138 to 143).\<close>

definition appendPlayerViewToTargetContainer :: "env \<Rightarrow> jsval \<Rightarrow> jsval \<Rightarrow> world \<Rightarrow> world" where
  "appendPlayerViewToTargetContainer e targetId view s =
     (case getElementById e targetId of
        Some targetContainer \<Rightarrow> s\<lparr>trace := trace s @ [AppendChild targetContainer view]\<rparr>
      | None \<Rightarrow> s)"

section \<open>The constructor\<close>

fun is_NewUIManager :: "event \<Rightarrow> bool" where
  "is_NewUIManager (NewUIManager m p c) = True"
| "is_NewUIManager ev = False"

text \<open>\<^verbatim>\<open>new UIManager(...)\<close> yields a manager no earlier event has named.\<close>

definition fresh_mgr :: "event list \<Rightarrow> nat" where
  "fresh_mgr tr = length (filter is_NewUIManager tr)"

text \<open>The \<^verbatim>\<open>else\<close> branch of the constructor, lines 23 to 30.\<close>

definition construct_enabled :: "env \<Rightarrow> wrapper \<Rightarrow> jsval \<Rightarrow> jsval \<Rightarrow> jsval \<Rightarrow> world \<Rightarrow> result" where
  "construct_enabled e w0 player options config s =
     (let m = fresh_mgr (trace s);
          w = w0\<lparr>priv_uiManager := Some m\<rparr>;
          s1 = s\<lparr>trace := trace s @ [NewUIManager m player config]\<rparr>
      in case getp e (heap s1) config ''customPreset'' of
           Inl x \<Rightarrow> (Throw x, w, s1)
         | Inr customPreset \<Rightarrow>
             then_do
               (if truthy customPreset then
                  mgr_invoke e (raw_get w ''_uiManager'') (BuildCustomUI customPreset) w s1
                else mgr_invoke e (raw_get w ''_uiManager'') BuildDefaultUI w s1)
               (\<lambda>_ w1 s2.
                  case getp e (heap s2) options ''plugins'' of
                    Inl x \<Rightarrow> (Throw x, w1, s2)
                  | Inr plugins \<Rightarrow>
                      then_do (priv_handleVr e Raw w1 [plugins] s2)
                        (\<lambda>_ w2 s3. priv_handleExternalCSS e Raw w2 [config] s3)))"

text \<open>
  Lines 17 to 39. The field initialiser sets \<^verbatim>\<open>_disabled\<close> to \<^verbatim>\<open>false\<close>
  before the body runs; what is returned stands for the proxy around the object, and
  every later use of it goes through \<open>proxy_get\<close>. On line 21 the arguments are
  evaluated before the helper is called, so a throwing \<^verbatim>\<open>player.getView()\<close>
  leaves the DOM untouched.
\<close>

definition constructor :: "env \<Rightarrow> jsval \<Rightarrow> jsval \<Rightarrow> world \<Rightarrow> wrapper outcome \<times> world" where
  "constructor e player options s =
     (let w0 = \<lparr>priv_disabled = False, priv_uiManager = None\<rparr> in
      case getp e (heap s) options ''ui'' of
        Inl x \<Rightarrow> (Throw x, s)
      | Inr config \<Rightarrow>
          (case getp e (heap s) config ''disable'' of
             Inl x \<Rightarrow> (Throw x, s)
           | Inr d \<Rightarrow>
               if truthy d then
                 (case getp e (heap s) config ''targetId'' of
                    Inl x \<Rightarrow> (Throw x, s)
                  | Inr targetId \<Rightarrow>
                      (case player_getView e (heap s) player of
                         Inl x \<Rightarrow> (Throw x, s)
                       | Inr view \<Rightarrow>
                           (Return (w0\<lparr>priv_disabled := True\<rparr>),
                            appendPlayerViewToTargetContainer e targetId view s)))
               else
                 (case construct_enabled e w0 player options config s of
                    (Return v, w, s') \<Rightarrow> (Return w, s')
                  | (Throw x, w, s') \<Rightarrow> (Throw x, s'))))"

section \<open>Using the wrapper from outside\<close>

definition call_method :: "env \<Rightarrow> receiver \<Rightarrow> wrapper \<Rightarrow> meth \<Rightarrow> jsval list \<Rightarrow> world \<Rightarrow> result" where
  "call_method e r w m args s =
     (case m of
        M_destroy \<Rightarrow> destroy e r w args s
      | M_reset \<Rightarrow> reset e r w args s
      | M_setConfig \<Rightarrow> setConfig e r w args s
      | M_addComponent \<Rightarrow> addComponent e r w args s
      | M_registerManager \<Rightarrow> registerManager e r w args s
      | M_getManager \<Rightarrow> getManager e r w args s
      | M_hasManager \<Rightarrow> hasManager e r w args s
      | M_resetErrorState \<Rightarrow> priv_resetErrorState e r w args s
      | M_setSeekbarConfig \<Rightarrow> setSeekbarConfig e r w args s
      | M_setLoadingSpinnerState \<Rightarrow> setLoadingSpinnerState e r w args s
      | M_handleExternalCSS \<Rightarrow> priv_handleExternalCSS e r w args s
      | M_handleVr \<Rightarrow> priv_handleVr e r w args s
      | M_setStereoConfig \<Rightarrow> priv_setStereoConfig e r w args s)"

text \<open>
  \<^verbatim>\<open>wrapper.p(args)\<close> on what the constructor returned: the \<^verbatim>\<open>get\<close> trap
  answers the read of \<^verbatim>\<open>p\<close>, and the answer is called with the proxy as
  \<^verbatim>\<open>this\<close>. Calling a field is a \<^verbatim>\<open>TypeError\<close>; members inherited from
  beyond the class are outside the model.
\<close>

definition invoke :: "env \<Rightarrow> wrapper \<Rightarrow> string \<Rightarrow> jsval list \<Rightarrow> world \<Rightarrow> result" where
  "invoke e w p args s =
     (case proxy_get w p of
        ConstUndefinedFn \<Rightarrow> (Return JUndefined, w, s)
      | MethodFn m \<Rightarrow> call_method e Proxied w m args s
      | FieldVal v \<Rightarrow> (Throw TypeError, w, s)
      | ManagerObj m \<Rightarrow> (Throw TypeError, w, s)
      | Inherited q \<Rightarrow> (Throw Unmodelled, w, s))"

text \<open>
  A life of a wrapper after construction: calls of its public and private methods,
  interleaved with pending stylesheet loads settling.
\<close>

datatype step = Call meth "jsval list" | Settle nat settlement

fun run :: "env \<Rightarrow> step list \<Rightarrow> wrapper \<times> world \<Rightarrow> wrapper \<times> world" where
  "run e [] ws = ws"
| "run e (Call m args # rest) (w, s) =
     (case invoke e w (name_of m) args s of (out, w', s') \<Rightarrow> run e rest (w', s'))"
| "run e (Settle i out # rest) (w, s) =
     run e rest (w, case settle i out s of Some (res, s') \<Rightarrow> s' | None \<Rightarrow> s)"

section \<open>Vocabulary for the properties\<close>

text \<open>The value of \<^verbatim>\<open>v.k\<close> where reading it cannot throw.\<close>

definition rd :: "env \<Rightarrow> heap \<Rightarrow> jsval \<Rightarrow> string \<Rightarrow> jsval" where
  "rd e h v k = (case getp e h v k of Inr x \<Rightarrow> x | Inl err \<Rightarrow> JUndefined)"

fun is_build :: "event \<Rightarrow> bool" where
  "is_build (MgrCall m (BuildCustomUI p)) = True"
| "is_build (MgrCall m BuildDefaultUI) = True"
| "is_build ev = False"

fun is_dom :: "event \<Rightarrow> bool" where
  "is_dom (AppendChild el v) = True"
| "is_dom ev = False"

fun is_log :: "event \<Rightarrow> bool" where
  "is_log (LoggerDebug msg) = True"
| "is_log (LoggerError msg) = True"
| "is_log ev = False"

fun is_load :: "event \<Rightarrow> bool" where
  "is_load (LoadStyleSheetAsync url) = True"
| "is_load ev = False"

fun is_vrStereo :: "event \<Rightarrow> bool" where
  "is_vrStereo (MgrCall m (MgrSetConfig c alias)) = (alias = JStr ''vrStereo'')"
| "is_vrStereo ev = False"

text \<open>
  The condition for a stereo configuration, in the words of the description: the
  \<^verbatim>\<open>vr\<close> plugin configuration exists (an object, hence truthy), is not disabled,
  and either asks for the toggle or runs on a mobile or tablet device without having
  set \<^verbatim>\<open>toggleStereo\<close> to exactly \<^verbatim>\<open>false\<close>.
\<close>

definition vr_stereo_wanted :: "env \<Rightarrow> heap \<Rightarrow> jsval \<Rightarrow> bool" where
  "vr_stereo_wanted e h plugins =
     (let vr = rd e h plugins ''vr'' in
      truthy vr \<and> \<not> truthy (rd e h vr ''disable'') \<and>
      (truthy (rd e h vr ''toggleStereo'') \<or>
       ((isMobile e \<or> isTablet e) \<and> rd e h vr ''toggleStereo'' \<noteq> JBool False)))"

text \<open>The merge that builds the stereo configuration, and what the constructor leaves.\<close>

definition vr_merge :: "env \<Rightarrow> heap \<Rightarrow> jsval \<Rightarrow> heap \<times> jsval" where
  "vr_merge e h plugins =
     mergeDeep e
       (h @ [[], [(''vrStereoMode'',
                   JBool (truthy (rd e h (rd e h plugins ''vr'') ''startInStereo'')))]])
       (JRef (length h)) [JRef (Suc (length h))]"

definition build_call :: "jsval \<Rightarrow> mgr_call" where
  "build_call customPreset =
     (if truthy customPreset then BuildCustomUI customPreset else BuildDefaultUI)"

definition vr_events :: "env \<Rightarrow> heap \<Rightarrow> nat \<Rightarrow> jsval \<Rightarrow> event list" where
  "vr_events e h m plugins =
     (if vr_stereo_wanted e h plugins
      then [MgrCall m (MgrSetConfig (snd (vr_merge e h plugins)) (JStr ''vrStereo''))]
      else [])"

definition heap_after_vr :: "env \<Rightarrow> heap \<Rightarrow> jsval \<Rightarrow> heap" where
  "heap_after_vr e h plugins =
     (if vr_stereo_wanted e h plugins then fst (vr_merge e h plugins)
      else if plugins = JUndefined then h @ [[]] else h)"

definition css_events :: "jsval \<Rightarrow> event list" where
  "css_events css = (if truthy css then [LoadStyleSheetAsync css] else [])"

definition css_reactions :: "jsval \<Rightarrow> reaction list" where
  "css_reactions css = (if truthy css then [ExternalCssThen] else [])"

fun css_log :: "settlement \<Rightarrow> event" where
  "css_log (Fulfilled v) = LoggerDebug ''external css was loaded successfully''"
| "css_log (Rejected v) = LoggerError ''external css failed to load''"

subsection \<open>What is assumed of the playkit utilities\<close>

text \<open>
  \<^verbatim>\<open>Utils.Object.mergeDeep\<close> and \<^verbatim>\<open>Utils.Object.getPropertyPath\<close> belong to
  the playkit library, not to this file. Of the merge only this much is used: called
  on a fresh empty target with sources that are absent or plain objects, it returns the
  target, writes to no other object that existed before, and leaves the target with
  the properties of the sources, a later source winning, as far as their values are
  primitive.
\<close>

fun last_defined :: "heap \<Rightarrow> jsval list \<Rightarrow> string \<Rightarrow> jsval option" where
  "last_defined h [] k = None"
| "last_defined h (src # rest) k =
     (case last_defined h rest k of Some v \<Rightarrow> Some v | None \<Rightarrow> own h src k)"

definition mergeDeep_contract :: "env \<Rightarrow> bool" where
  "mergeDeep_contract e \<longleftrightarrow>
     (\<forall>h t srcs.
        t < length h \<and> h ! t = [] \<and>
        (\<forall>x \<in> set srcs. x = JUndefined \<or> (\<exists>a. x = JRef a \<and> a < length h)) \<longrightarrow>
        snd (mergeDeep e h (JRef t) srcs) = JRef t \<and>
        length h \<le> length (fst (mergeDeep e h (JRef t) srcs)) \<and>
        (\<forall>a. a < length h \<and> a \<noteq> t \<longrightarrow> fst (mergeDeep e h (JRef t) srcs) ! a = h ! a) \<and>
        (\<forall>k. case last_defined h srcs k of
               None \<Rightarrow> own (fst (mergeDeep e h (JRef t) srcs)) (JRef t) k = None
             | Some v \<Rightarrow>
                 is_prim v \<longrightarrow> own (fst (mergeDeep e h (JRef t) srcs)) (JRef t) k = Some v))"

text \<open>
  \<^verbatim>\<open>getPropertyPath(obj, 'a.b')\<close> is \<^verbatim>\<open>obj.a.b\<close>, stopping at the first
  \<^verbatim>\<open>undefined\<close> or \<^verbatim>\<open>null\<close> on the way.
\<close>

fun path_read :: "env \<Rightarrow> heap \<Rightarrow> jsval \<Rightarrow> string list \<Rightarrow> jsval" where
  "path_read e h v [] = v"
| "path_read e h v (k # ks) =
     (case getp e h v k of Inl err \<Rightarrow> v | Inr x \<Rightarrow> path_read e h x ks)"

text \<open>
  A seekbar configuration as its type declares it: absent, or a plain object whose
  properties (sprite URL, width, slices) are primitive values.
\<close>

fun flat_config :: "heap \<Rightarrow> jsval \<Rightarrow> bool" where
  "flat_config h JUndefined = True"
| "flat_config h (JRef a) = (a < length h \<and> list_all (\<lambda>kv. is_prim (snd kv)) (h ! a))"
| "flat_config h v = False"

text \<open>The defaults that \<open>getPreviewThumbnailConfig\<close> computes.\<close>

definition thumb_defaults :: "env \<Rightarrow> heap \<Rightarrow> jsval \<Rightarrow> jsval \<Rightarrow> jsobj" where
  "thumb_defaults e h mediaConfig seekbarConfig =
     [(''thumbsSprite'', getThumbSlicesUrl e h mediaConfig seekbarConfig),
      (''thumbsWidth'', JNum (DEFAULT_THUMBS_WIDTH e)),
      (''thumbsSlices'', JNum (DEFAULT_THUMBS_SLICES e))]"

subsection \<open>A concrete environment and store for the examples\<close>

fun props_of :: "heap \<Rightarrow> jsval \<Rightarrow> jsobj" where
  "props_of h (JRef a) = (if a < length h then h ! a else [])"
| "props_of h v = []"

fun merge_all :: "heap \<Rightarrow> jsobj \<Rightarrow> jsval list \<Rightarrow> jsobj" where
  "merge_all h acc [] = acc"
| "merge_all h acc (src # rest) = merge_all h (props_of h src @ acc) rest"

text \<open>A merge that copies the properties of the sources into the target, in order.\<close>

definition sample_mergeDeep :: "heap \<Rightarrow> jsval \<Rightarrow> jsval list \<Rightarrow> heap \<times> jsval" where
  "sample_mergeDeep h t srcs =
     (case t of
        JRef a \<Rightarrow> (if a < length h then (h[a := merge_all h (h ! a) srcs], t) else (h, t))
      | _ \<Rightarrow> (h, t))"

definition sample_base :: env where
  "sample_base =
     \<lparr>isMobile = True, isTablet = False,
      getElementById = (\<lambda>v. if v = JStr ''player-placeholder'' then Some 5 else None),
      getView = (\<lambda>n. Some (JHost 9)),
      host_prop = (\<lambda>n k. JUndefined),
      getPropertyPath = (\<lambda>h v p. JUndefined),
      mergeDeep = sample_mergeDeep,
      getThumbSlicesUrl = (\<lambda>h m c. JStr ''https://cdn.example/thumbs/slices/100''),
      DEFAULT_THUMBS_WIDTH = 164,
      DEFAULT_THUMBS_SLICES = 100,
      mgr_result = (\<lambda>tr m c. JHost (length tr))\<rparr>"

definition sample_env :: env where
  "sample_env =
     sample_base\<lparr>getPropertyPath :=
       (\<lambda>h v p. if p = ''components.seekbar''
                 then path_read sample_base h v [''components'', ''seekbar'']
                 else JUndefined)\<rparr>"

text \<open>
  The store of the examples: at 0 the options of an enabled player with a VR plugin,
  at 4 the options of a disabled one, at 6 a UI configuration with a seekbar section.
\<close>

definition sample_heap :: heap where
  "sample_heap =
     [[(''ui'', JRef 1), (''plugins'', JRef 2)],
      [(''targetId'', JStr ''player-placeholder''), (''css'', JStr ''skin.css'')],
      [(''vr'', JRef 3)],
      [(''startInStereo'', JBool True)],
      [(''ui'', JRef 5)],
      [(''disable'', JBool True), (''targetId'', JStr ''player-placeholder'')],
      [(''components'', JRef 7)],
      [(''seekbar'', JRef 8)],
      [(''thumbsWidth'', JNum 200)]]"

definition sample_world :: world where
  "sample_world = \<lparr>heap = sample_heap, trace = [], pending = []\<rparr>"

text \<open>
  Two more stores: options with a stylesheet and \<^verbatim>\<open>plugins: null\<close>, and the
  options of a disabled player whose target element is not in the document.
\<close>

definition null_plugins_world :: world where
  "null_plugins_world =
     \<lparr>heap = [[(''ui'', JRef 1), (''plugins'', JNull)], [(''css'', JStr ''skin.css'')]],
      trace = [], pending = []\<rparr>"

definition missing_target_world :: world where
  "missing_target_world =
     \<lparr>heap = [[(''ui'', JRef 1)], [(''disable'', JBool True), (''targetId'', JStr ''nowhere'')]],
      trace = [], pending = []\<rparr>"

definition sample_enabled :: wrapper where
  "sample_enabled = \<lparr>priv_disabled = False, priv_uiManager = Some 0\<rparr>"

definition sample_disabled :: wrapper where
  "sample_disabled = \<lparr>priv_disabled = True, priv_uiManager = None\<rparr>"

section \<open>Auxiliary facts\<close>

lemma method_of_name_name_of: "method_of_name (name_of m) = Some m"
  by (cases m) (simp_all add: method_of_name_def all_methods_def)

lemma name_of_not_field: "name_of m \<noteq> ''_uiManager''" "name_of m \<noteq> ''_disabled''"
  by (cases m; simp)+

lemma raw_get_method: "raw_get w (name_of m) = MethodFn m"
  by (simp add: raw_get_def name_of_not_field method_of_name_name_of)

lemma wrapper_mgr_invoke: "fst (snd (mgr_invoke e mem c w s)) = w"
  by (simp add: mgr_invoke_def split: member.splits)

lemma wrapper_discard: "fst (snd (discard r)) = fst (snd r)"
  by (simp add: discard_def split: prod.splits outcome.splits)

lemma wrapper_then_do:
  "fst (snd r) = w \<Longrightarrow> (\<And>v s. fst (snd (f v w s)) = w) \<Longrightarrow> fst (snd (then_do r f)) = w"
  by (auto simp add: then_do_def split: prod.splits outcome.splits)

lemma wrapper_this_call:
  "(\<And>s. fst (snd (body s)) = w) \<Longrightarrow> fst (snd (this_call r w m body s)) = w"
  by (simp add: this_call_def split: member.splits)

lemma wrapper_setConfig: "fst (snd (setConfig e r w args s)) = w"
  by (simp add: setConfig_def wrapper_discard wrapper_mgr_invoke)

lemma wrapper_destroy: "fst (snd (destroy e r w args s)) = w"
  by (simp add: destroy_def wrapper_discard wrapper_mgr_invoke)

lemma wrapper_addComponent: "fst (snd (addComponent e r w args s)) = w"
  by (simp add: addComponent_def wrapper_mgr_invoke)

lemma wrapper_registerManager: "fst (snd (registerManager e r w args s)) = w"
  by (simp add: registerManager_def wrapper_discard wrapper_mgr_invoke)

lemma wrapper_getManager: "fst (snd (getManager e r w args s)) = w"
  by (simp add: getManager_def wrapper_mgr_invoke)

lemma wrapper_hasManager: "fst (snd (hasManager e r w args s)) = w"
  by (simp add: hasManager_def wrapper_mgr_invoke)

lemma wrapper_resetErrorState: "fst (snd (priv_resetErrorState e r w args s)) = w"
  by (simp add: priv_resetErrorState_def alloc_def wrapper_discard wrapper_this_call wrapper_setConfig)

lemma wrapper_reset: "fst (snd (reset e r w args s)) = w"
  by (simp add: reset_def wrapper_discard wrapper_this_call wrapper_resetErrorState)

lemma wrapper_setSeekbarConfig: "fst (snd (setSeekbarConfig e r w args s)) = w"
  by (simp add: setSeekbarConfig_def Let_def wrapper_discard wrapper_this_call wrapper_setConfig
      split: prod.splits)

lemma wrapper_setLoadingSpinnerState: "fst (snd (setLoadingSpinnerState e r w args s)) = w"
  by (simp add: setLoadingSpinnerState_def alloc_def wrapper_discard wrapper_this_call wrapper_setConfig)

lemma wrapper_handleExternalCSS: "fst (snd (priv_handleExternalCSS e r w args s)) = w"
  by (simp add: priv_handleExternalCSS_def split: sum.splits)

lemma wrapper_setStereoConfig: "fst (snd (priv_setStereoConfig e r w args s)) = w"
  by (simp add: priv_setStereoConfig_def Let_def wrapper_discard wrapper_this_call wrapper_setConfig
      split: sum.splits prod.splits)

lemma wrapper_handleVr: "fst (snd (priv_handleVr e r w args s)) = w"
  by (simp add: priv_handleVr_def Let_def wrapper_discard wrapper_this_call wrapper_setStereoConfig
      split: sum.splits prod.splits)

lemma wrapper_call_method: "fst (snd (call_method e r w m args s)) = w"
  by (cases m)
     (simp_all add: call_method_def wrapper_destroy wrapper_reset wrapper_setConfig
        wrapper_addComponent wrapper_registerManager wrapper_getManager wrapper_hasManager
        wrapper_resetErrorState wrapper_setSeekbarConfig wrapper_setLoadingSpinnerState
        wrapper_handleExternalCSS wrapper_handleVr wrapper_setStereoConfig)

lemma wrapper_invoke: "fst (snd (invoke e w p args s)) = w"
  by (simp add: invoke_def wrapper_call_method split: member.splits)

lemma wrapper_run: "fst (run e steps (w, s)) = w"
proof (induction steps arbitrary: s)
  case Nil
  show ?case by simp
next
  case (Cons st steps)
  show ?case
  proof (cases st)
    case (Call m args)
    obtain out w' s' where inv: "invoke e w (name_of m) args s = (out, w', s')"
      by (cases "invoke e w (name_of m) args s") auto
    have "w' = w" using wrapper_invoke [of e w "name_of m" args s] inv by simp
    then show ?thesis using Call inv Cons.IH by simp
  next
    case (Settle i out)
    then show ?thesis using Cons.IH by simp
  qed
qed

lemma getp_rd: "getp e h v k = Inr x \<Longrightarrow> rd e h v k = x"
  by (simp add: rd_def)

lemma getp_truthy: "truthy v \<Longrightarrow> getp e h v k = Inr (rd e h v k)"
  by (cases v) (simp_all add: rd_def)

lemma getp_defined: "v \<noteq> JUndefined \<Longrightarrow> v \<noteq> JNull \<Longrightarrow> getp e h v k = Inr (rd e h v k)"
  by (cases v) (simp_all add: rd_def)

lemma getp_Inr_defined: "getp e h v k = Inr x \<Longrightarrow> v \<noteq> JUndefined \<and> v \<noteq> JNull"
  by (cases v) simp_all

lemma this_get_manager:
  "priv_disabled w = False \<Longrightarrow> priv_uiManager w = Some m \<Longrightarrow>
   this_get r w ''_uiManager'' = ManagerObj m"
  by (cases r) (simp_all add: this_get_def proxy_get_def raw_get_def)

lemma this_get_method:
  "priv_disabled w = False \<Longrightarrow> this_get r w (name_of mm) = MethodFn mm"
  by (cases r) (simp_all add: this_get_def proxy_get_def raw_get_method)

lemma this_call_enabled:
  "priv_disabled w = False \<Longrightarrow> this_call r w mm body s = body s"
  by (simp add: this_call_def this_get_method)

lemma setConfig_enabled:
  "priv_disabled w = False \<Longrightarrow> priv_uiManager w = Some m \<Longrightarrow>
   setConfig e r w args s =
     (Return JUndefined, w, s\<lparr>trace := trace s @ [MgrCall m (MgrSetConfig (arg 0 args) (arg 1 args))]\<rparr>)"
  by (simp add: setConfig_def this_get_manager mgr_invoke_def discard_def)

lemma setStereoConfig_enabled:
  assumes "priv_disabled w = False" "priv_uiManager w = Some m" "truthy vr"
  shows "priv_setStereoConfig e r w [vr] s =
     (if truthy (rd e (heap s) vr ''toggleStereo'') \<or>
         ((isMobile e \<or> isTablet e) \<and> rd e (heap s) vr ''toggleStereo'' \<noteq> JBool False)
      then
        (let md = mergeDeep e
                    (heap s @ [[], [(''vrStereoMode'',
                        JBool (truthy (rd e (heap s) vr ''startInStereo'')))]])
                    (JRef (length (heap s))) [JRef (Suc (length (heap s)))]
         in (Return JUndefined, w,
             s\<lparr>heap := fst md,
               trace := trace s @ [MgrCall m (MgrSetConfig (snd md) (JStr ''vrStereo''))]\<rparr>))
      else (Return JUndefined, w, s))"
  using assms
  by (auto simp add: priv_setStereoConfig_def Let_def arg_def getp_truthy alloc_def
        this_call_enabled setConfig_enabled discard_def split: prod.splits)

lemma handleVr_enabled:
  assumes "priv_disabled w = False" "priv_uiManager w = Some m" "plugins \<noteq> JNull"
  shows "priv_handleVr e r w [plugins] s =
     (if vr_stereo_wanted e (heap s) plugins then
        (Return JUndefined, w,
         s\<lparr>heap := fst (vr_merge e (heap s) plugins),
           trace := trace s @
             [MgrCall m (MgrSetConfig (snd (vr_merge e (heap s) plugins)) (JStr ''vrStereo''))]\<rparr>)
      else (Return JUndefined, w,
            s\<lparr>heap := (if plugins = JUndefined then heap s @ [[]] else heap s)\<rparr>))"
proof (cases "plugins = JUndefined")
  case True
  then show ?thesis
    by (simp add: priv_handleVr_def arg_def alloc_def vr_stereo_wanted_def rd_def)
next
  case False
  have g: "getp e (heap s) plugins ''vr'' = Inr (rd e (heap s) plugins ''vr'')"
    using False assms(3) by (rule getp_defined)
  show ?thesis
  proof (cases "truthy (rd e (heap s) plugins ''vr'')")
    case vr: True
    show ?thesis
      using False vr assms(1,2)
      by (auto simp add: priv_handleVr_def arg_def g getp_truthy this_call_enabled
            setStereoConfig_enabled vr_stereo_wanted_def vr_merge_def Let_def discard_def)
  next
    case vr: False
    show ?thesis
      using False vr
      by (simp add: priv_handleVr_def arg_def g vr_stereo_wanted_def Let_def)
  qed
qed

lemma handleVr_enabled_world:
  assumes "priv_disabled w = False" "priv_uiManager w = Some m" "plugins \<noteq> JNull"
  shows "priv_handleVr e r w [plugins] s =
     (Return JUndefined, w,
      s\<lparr>heap := heap_after_vr e (heap s) plugins,
        trace := trace s @ vr_events e (heap s) m plugins\<rparr>)"
  using handleVr_enabled [OF assms, of e r s]
  by (simp add: heap_after_vr_def vr_events_def)

lemma handleExternalCSS_defined:
  assumes "config \<noteq> JUndefined" "config \<noteq> JNull"
  shows "priv_handleExternalCSS e r w [config] s =
     (Return JUndefined, w,
      s\<lparr>trace := trace s @ css_events (rd e (heap s) config ''css''),
        pending := pending s @ css_reactions (rd e (heap s) config ''css'')\<rparr>)"
  using assms
  by (simp add: priv_handleExternalCSS_def arg_def getp_defined css_events_def css_reactions_def)

lemma constructor_enabled:
  assumes ui: "getp e (heap s0) options ''ui'' = Inr config"
    and dis: "getp e (heap s0) config ''disable'' = Inr d"
    and falsy: "\<not> truthy d"
    and pl: "rd e (heap s0) options ''plugins'' \<noteq> JNull"
  shows "constructor e player options s0 =
     (Return \<lparr>priv_disabled = False, priv_uiManager = Some (fresh_mgr (trace s0))\<rparr>,
      s0\<lparr>heap := heap_after_vr e (heap s0) (rd e (heap s0) options ''plugins''),
         trace := trace s0 @
           [NewUIManager (fresh_mgr (trace s0)) player config,
            MgrCall (fresh_mgr (trace s0)) (build_call (rd e (heap s0) config ''customPreset''))] @
           vr_events e (heap s0) (fresh_mgr (trace s0)) (rd e (heap s0) options ''plugins'') @
           css_events (rd e (heap_after_vr e (heap s0) (rd e (heap s0) options ''plugins''))
                         config ''css''),
         pending := pending s0 @
           css_reactions (rd e (heap_after_vr e (heap s0) (rd e (heap s0) options ''plugins''))
                            config ''css'')\<rparr>)"
proof -
  let ?m = "fresh_mgr (trace s0)"
  let ?w = "\<lparr>priv_disabled = False, priv_uiManager = Some ?m\<rparr>"
  have od: "options \<noteq> JUndefined" "options \<noteq> JNull"
    using getp_Inr_defined [OF ui] by simp_all
  have cd: "config \<noteq> JUndefined" "config \<noteq> JNull"
    using getp_Inr_defined [OF dis] by simp_all
  have gp: "getp e (heap s0) options ''plugins'' = Inr (rd e (heap s0) options ''plugins'')"
    using od by (rule getp_defined)
  have gc: "getp e (heap s0) config ''customPreset'' = Inr (rd e (heap s0) config ''customPreset'')"
    using cd by (rule getp_defined)
  have en: "priv_disabled ?w = False" "priv_uiManager ?w = Some ?m" by simp_all
  have rg: "raw_get ?w ''_uiManager'' = ManagerObj ?m" by (simp add: raw_get_def)
  have ce: "construct_enabled e \<lparr>priv_disabled = False, priv_uiManager = None\<rparr>
              player options config s0 =
     (Return JUndefined, ?w,
      s0\<lparr>heap := heap_after_vr e (heap s0) (rd e (heap s0) options ''plugins''),
         trace := trace s0 @
           [NewUIManager ?m player config,
            MgrCall ?m (build_call (rd e (heap s0) config ''customPreset''))] @
           vr_events e (heap s0) ?m (rd e (heap s0) options ''plugins'') @
           css_events (rd e (heap_after_vr e (heap s0) (rd e (heap s0) options ''plugins''))
                         config ''css''),
         pending := pending s0 @
           css_reactions (rd e (heap_after_vr e (heap s0) (rd e (heap s0) options ''plugins''))
                            config ''css'')\<rparr>)"
    by (simp add: construct_enabled_def Let_def gc gp rg mgr_invoke_def then_do_def build_call_def
          handleVr_enabled_world [OF en pl] handleExternalCSS_defined [OF cd])
  show ?thesis
    by (simp add: constructor_def Let_def ui dis falsy ce)
qed

lemma constructor_disabled:
  assumes ui: "getp e (heap s0) options ''ui'' = Inr config"
    and dis: "getp e (heap s0) config ''disable'' = Inr d"
    and tr: "truthy d"
  shows "constructor e player options s0 =
     (case player_getView e (heap s0) player of
        Inl x \<Rightarrow> (Throw x, s0)
      | Inr view \<Rightarrow>
          (Return \<lparr>priv_disabled = True, priv_uiManager = None\<rparr>,
           appendPlayerViewToTargetContainer e (rd e (heap s0) config ''targetId'') view s0))"
proof -
  have cd: "config \<noteq> JUndefined" "config \<noteq> JNull"
    using getp_Inr_defined [OF dis] by simp_all
  have gt: "getp e (heap s0) config ''targetId'' = Inr (rd e (heap s0) config ''targetId'')"
    using cd by (rule getp_defined)
  show ?thesis
    by (simp add: constructor_def Let_def ui dis tr gt split: sum.splits)
qed

lemma constructor_disabled_returned:
  assumes ui: "getp e (heap s0) options ''ui'' = Inr config"
    and dis: "getp e (heap s0) config ''disable'' = Inr d"
    and tr: "truthy d"
    and ctor: "constructor e player options s0 = (Return w, s1)"
  shows "w = \<lparr>priv_disabled = True, priv_uiManager = None\<rparr>"
  using ctor constructor_disabled [OF ui dis tr, of player]
  by (simp split: sum.splits)

lemma wrapper_construct_enabled:
  "fst (snd (construct_enabled e w0 player options config s)) =
     w0\<lparr>priv_uiManager := Some (fresh_mgr (trace s))\<rparr>"
  unfolding construct_enabled_def Let_def
  by (auto split: sum.splits
        intro!: wrapper_then_do wrapper_mgr_invoke wrapper_handleVr wrapper_handleExternalCSS)

lemma constructor_returned_enabled:
  assumes ui: "getp e (heap s0) options ''ui'' = Inr config"
    and dis: "getp e (heap s0) config ''disable'' = Inr d"
    and falsy: "\<not> truthy d"
    and ctor: "constructor e player options s0 = (Return w, s1)"
  shows "w = \<lparr>priv_disabled = False, priv_uiManager = Some (fresh_mgr (trace s0))\<rparr>"
proof -
  let ?w0 = "\<lparr>priv_disabled = False, priv_uiManager = None\<rparr>"
  obtain out w' s' where ce: "construct_enabled e ?w0 player options config s0 = (out, w', s')"
    by (cases "construct_enabled e ?w0 player options config s0") auto
  have "w' = ?w0\<lparr>priv_uiManager := Some (fresh_mgr (trace s0))\<rparr>"
    using wrapper_construct_enabled [of e ?w0 player options config s0] ce by simp
  moreover have "w = w'"
    using ctor by (simp add: constructor_def Let_def ui dis falsy ce split: outcome.splits)
  ultimately show ?thesis by simp
qed

lemma constructor_null_plugins:
  assumes ui: "getp e (heap s0) options ''ui'' = Inr config"
    and dis: "getp e (heap s0) config ''disable'' = Inr d"
    and falsy: "\<not> truthy d"
    and pl: "rd e (heap s0) options ''plugins'' = JNull"
  shows "constructor e player options s0 =
     (Throw TypeError,
      s0\<lparr>trace := trace s0 @
           [NewUIManager (fresh_mgr (trace s0)) player config,
            MgrCall (fresh_mgr (trace s0)) (build_call (rd e (heap s0) config ''customPreset''))]\<rparr>)"
proof -
  have od: "options \<noteq> JUndefined" "options \<noteq> JNull"
    using getp_Inr_defined [OF ui] by simp_all
  have cd: "config \<noteq> JUndefined" "config \<noteq> JNull"
    using getp_Inr_defined [OF dis] by simp_all
  have gp: "getp e (heap s0) options ''plugins'' = Inr JNull"
    using getp_defined [OF od, of e "heap s0" "''plugins''"] pl by simp
  have gc: "getp e (heap s0) config ''customPreset'' = Inr (rd e (heap s0) config ''customPreset'')"
    using cd by (rule getp_defined)
  show ?thesis
    by (simp add: constructor_def Let_def ui dis falsy construct_enabled_def gc gp raw_get_def
          mgr_invoke_def then_do_def build_call_def priv_handleVr_def arg_def)
qed

lemma constructor_returned_plugins:
  assumes ui: "getp e (heap s0) options ''ui'' = Inr config"
    and dis: "getp e (heap s0) config ''disable'' = Inr d"
    and falsy: "\<not> truthy d"
    and ctor: "constructor e player options s0 = (Return w, s1)"
  shows "rd e (heap s0) options ''plugins'' \<noteq> JNull"
proof
  assume "rd e (heap s0) options ''plugins'' = JNull"
  from constructor_null_plugins [OF ui dis falsy this, of player] ctor show False by simp
qed

lemma proxy_get_disabled: "priv_disabled w \<Longrightarrow> proxy_get w p = ConstUndefinedFn"
  by (simp add: proxy_get_def)

lemma proxy_get_method: "\<not> priv_disabled w \<Longrightarrow> proxy_get w (name_of mm) = MethodFn mm"
  by (simp add: proxy_get_def raw_get_method)

lemma invoke_method:
  "\<not> priv_disabled w \<Longrightarrow> invoke e w (name_of mm) args s = call_method e Proxied w mm args s"
  by (simp add: invoke_def proxy_get_method)

lemma mgr_method_enabled:
  assumes "priv_disabled w = False" "priv_uiManager w = Some m"
  shows "mgr_invoke e (this_get r w ''_uiManager'') c w s =
     (Return (mgr_result e (trace s) m c), w, s\<lparr>trace := trace s @ [MgrCall m c]\<rparr>)"
  using assms by (simp add: this_get_manager mgr_invoke_def)

lemma sample_ui: "getp sample_env (heap sample_world) (JRef 0) ''ui'' = Inr (JRef 1)"
  by (simp add: sample_world_def sample_heap_def)

lemma sample_enabled_flag:
  "getp sample_env (heap sample_world) (JRef 1) ''disable'' = Inr JUndefined"
  by (simp add: sample_world_def sample_heap_def)

lemma sample_plugins: "rd sample_env (heap sample_world) (JRef 0) ''plugins'' = JRef 2"
  by (simp add: rd_def sample_world_def sample_heap_def)

lemma sample_disabled_constructor:
  "constructor sample_env (JHost 1) (JRef 4) sample_world =
     (Return sample_disabled, sample_world\<lparr>trace := [AppendChild 5 (JHost 9)]\<rparr>)"
  by (simp add: constructor_def Let_def appendPlayerViewToTargetContainer_def
        sample_world_def sample_heap_def sample_env_def sample_base_def sample_disabled_def)

lemma mergeDeep_contractD:
  assumes "mergeDeep_contract e" "t < length h" "h ! t = []"
    and "\<forall>x \<in> set srcs. x = JUndefined \<or> (\<exists>a. x = JRef a \<and> a < length h)"
  shows "snd (mergeDeep e h (JRef t) srcs) = JRef t"
    and "length h \<le> length (fst (mergeDeep e h (JRef t) srcs))"
    and "\<And>a. a < length h \<Longrightarrow> a \<noteq> t \<Longrightarrow> fst (mergeDeep e h (JRef t) srcs) ! a = h ! a"
    and "\<And>k. last_defined h srcs k = None \<Longrightarrow>
           own (fst (mergeDeep e h (JRef t) srcs)) (JRef t) k = None"
    and "\<And>k v. last_defined h srcs k = Some v \<Longrightarrow> is_prim v \<Longrightarrow>
           own (fst (mergeDeep e h (JRef t) srcs)) (JRef t) k = Some v"
proof -
  from assms have c:
    "snd (mergeDeep e h (JRef t) srcs) = JRef t \<and>
     length h \<le> length (fst (mergeDeep e h (JRef t) srcs)) \<and>
     (\<forall>a. a < length h \<and> a \<noteq> t \<longrightarrow> fst (mergeDeep e h (JRef t) srcs) ! a = h ! a) \<and>
     (\<forall>k. case last_defined h srcs k of
            None \<Rightarrow> own (fst (mergeDeep e h (JRef t) srcs)) (JRef t) k = None
          | Some v \<Rightarrow>
              is_prim v \<longrightarrow> own (fst (mergeDeep e h (JRef t) srcs)) (JRef t) k = Some v)"
    unfolding mergeDeep_contract_def by blast
  show "snd (mergeDeep e h (JRef t) srcs) = JRef t" using c by blast
  show "length h \<le> length (fst (mergeDeep e h (JRef t) srcs))" using c by blast
  show "\<And>a. a < length h \<Longrightarrow> a \<noteq> t \<Longrightarrow> fst (mergeDeep e h (JRef t) srcs) ! a = h ! a"
    using c by blast
  have k: "case last_defined h srcs k of
            None \<Rightarrow> own (fst (mergeDeep e h (JRef t) srcs)) (JRef t) k = None
          | Some v \<Rightarrow>
              is_prim v \<longrightarrow> own (fst (mergeDeep e h (JRef t) srcs)) (JRef t) k = Some v" for k
    using c by blast
  show "\<And>k. last_defined h srcs k = None \<Longrightarrow>
           own (fst (mergeDeep e h (JRef t) srcs)) (JRef t) k = None"
  proof -
    fix k assume a: "last_defined h srcs k = None"
    from k [of k] a show "own (fst (mergeDeep e h (JRef t) srcs)) (JRef t) k = None" by simp
  qed
  show "\<And>k v. last_defined h srcs k = Some v \<Longrightarrow> is_prim v \<Longrightarrow>
           own (fst (mergeDeep e h (JRef t) srcs)) (JRef t) k = Some v"
  proof -
    fix k v assume a: "last_defined h srcs k = Some v" "is_prim v"
    from k [of k] a show "own (fst (mergeDeep e h (JRef t) srcs)) (JRef t) k = Some v" by simp
  qed
qed

lemma own_props_of: "map_of (props_of h src) k = own h src k"
  by (cases src) simp_all

lemma merge_all_lookup:
  "map_of (merge_all h acc srcs) k =
     (case last_defined h srcs k of Some v \<Rightarrow> Some v | None \<Rightarrow> map_of acc k)"
proof (induction srcs arbitrary: acc)
  case Nil
  show ?case by simp
next
  case (Cons src rest)
  show ?case
    by (simp add: Cons.IH map_add_def own_props_of split: option.splits)
qed

lemma sample_mergeDeep_contract: "mergeDeep_contract sample_env"
proof -
  have md: "mergeDeep sample_env = sample_mergeDeep"
    by (simp add: sample_env_def sample_base_def)
  show ?thesis
    unfolding mergeDeep_contract_def md
    by (auto simp add: sample_mergeDeep_def merge_all_lookup split: option.splits)
qed

lemma own_append_old: "a < length h \<Longrightarrow> own (h @ xs) (JRef a) k = own h (JRef a) k"
  by (simp add: nth_append)

lemma flat_own_prim: "flat_config h v \<Longrightarrow> own h v k = Some x \<Longrightarrow> is_prim x"
proof (cases v)
  case (JRef a)
  assume f: "flat_config h v" and o: "own h v k = Some x"
  from f JRef have a: "a < length h" and all: "list_all (\<lambda>kv. is_prim (snd kv)) (h ! a)"
    by simp_all
  from o JRef a have "(k, x) \<in> set (h ! a)" by (simp add: map_of_SomeD)
  with all show ?thesis by (auto simp add: list_all_iff)
qed simp_all

lemma flat_own_append: "flat_config h v \<Longrightarrow> own (h @ xs) v k = own h v k"
  by (cases v) (simp_all add: nth_append)

lemma flat_valid_source:
  "flat_config h v \<Longrightarrow> v = JUndefined \<or> (\<exists>a. v = JRef a \<and> a < length (h @ xs))"
  by (cases v) simp_all

lemma vr_merge_contract:
  assumes c: "mergeDeep_contract e"
  shows "snd (vr_merge e h plugins) = JRef (length h)"
    and "length h \<le> length (fst (vr_merge e h plugins))"
    and "\<And>a. a < length h \<Longrightarrow> fst (vr_merge e h plugins) ! a = h ! a"
    and "\<And>k. own (fst (vr_merge e h plugins)) (JRef (length h)) k =
           (if k = ''vrStereoMode''
            then Some (JBool (truthy (rd e h (rd e h plugins ''vr'') ''startInStereo'')))
            else None)"
proof -
  let ?b = "JBool (truthy (rd e h (rd e h plugins ''vr'') ''startInStereo''))"
  let ?h2 = "h @ [[], [(''vrStereoMode'', ?b)]]"
  let ?srcs = "[JRef (Suc (length h))]"
  have t: "length h < length ?h2" by simp
  have emp: "?h2 ! length h = []" by (simp add: nth_append)
  have src: "\<forall>x \<in> set ?srcs. x = JUndefined \<or> (\<exists>a. x = JRef a \<and> a < length ?h2)" by simp
  note d = mergeDeep_contractD [OF c t emp src]
  have ld: "last_defined ?h2 ?srcs k =
              (if k = ''vrStereoMode'' then Some ?b else None)" for k
    by (simp add: nth_append)
  show "snd (vr_merge e h plugins) = JRef (length h)"
    using d(1) by (simp add: vr_merge_def)
  show "length h \<le> length (fst (vr_merge e h plugins))"
    using d(2) by (simp add: vr_merge_def)
  show "\<And>a. a < length h \<Longrightarrow> fst (vr_merge e h plugins) ! a = h ! a"
  proof -
    fix a assume a: "a < length h"
    then have "a < length ?h2" "a \<noteq> length h" by simp_all
    from d(3) [OF this] a show "fst (vr_merge e h plugins) ! a = h ! a"
      by (simp add: vr_merge_def nth_append)
  qed
  show "\<And>k. own (fst (vr_merge e h plugins)) (JRef (length h)) k =
           (if k = ''vrStereoMode'' then Some ?b else None)"
  proof -
    fix k
    show "own (fst (vr_merge e h plugins)) (JRef (length h)) k =
           (if k = ''vrStereoMode'' then Some ?b else None)"
    proof (cases "k = ''vrStereoMode''")
      case True
      have "last_defined ?h2 ?srcs k = Some ?b" using True ld by simp
      from d(5) [OF this] True show ?thesis by (simp add: vr_merge_def)
    next
      case False
      have "last_defined ?h2 ?srcs k = None" using False ld by simp
      from d(4) [OF this] False show ?thesis by (simp add: vr_merge_def)
    qed
  qed
qed

section \<open>The disabled wrapper\<close>

text \<open>
  Claim C1. A wrapper constructed with a truthy \<^verbatim>\<open>options.ui.disable\<close> holds no UI
  manager, and every operation on it is a no-op: whatever property is read on it, the
  proxy answers with the function \<^verbatim>\<open>() => undefined\<close>, so the call returns
  \<^verbatim>\<open>undefined\<close> and leaves the wrapper and the whole world (the trace of manager
  calls included) as they were.
\<close>

theorem disabled_wrapper_is_noop:
  assumes ui: "getp e (heap s0) options ''ui'' = Inr config"
    and dis: "getp e (heap s0) config ''disable'' = Inr d"
    and tr: "truthy d"
    and ctor: "constructor e player options s0 = (Return w, s1)"
  shows "priv_uiManager w = None \<and> proxy_get w p = ConstUndefinedFn \<and>
         invoke e w p args s = (Return JUndefined, w, s)"
proof -
  have w: "w = \<lparr>priv_disabled = True, priv_uiManager = None\<rparr>"
    using ui dis tr ctor by (rule constructor_disabled_returned)
  then have "priv_disabled w" by simp
  then have "proxy_get w p = ConstUndefinedFn" by (rule proxy_get_disabled)
  then show ?thesis using w by (simp add: invoke_def)
qed

theorem disabled_wrapper_is_noop_witness:
  "constructor sample_env (JHost 1) (JRef 4) sample_world =
     (Return sample_disabled,
      sample_world\<lparr>trace := [AppendChild 5 (JHost 9)]\<rparr>) \<and>
   proxy_get sample_disabled ''setConfig'' = ConstUndefinedFn \<and>
   invoke sample_env sample_disabled ''setConfig'' [JRef 6, JStr ''seekbar'']
     (sample_world\<lparr>trace := [AppendChild 5 (JHost 9)]\<rparr>) =
     (Return JUndefined, sample_disabled, sample_world\<lparr>trace := [AppendChild 5 (JHost 9)]\<rparr>)"
proof -
  have ui: "getp sample_env (heap sample_world) (JRef 4) ''ui'' = Inr (JRef 5)"
    by (simp add: sample_world_def sample_heap_def)
  have dis: "getp sample_env (heap sample_world) (JRef 5) ''disable'' = Inr (JBool True)"
    by (simp add: sample_world_def sample_heap_def)
  have tr: "truthy (JBool True)" by simp
  note ctor = sample_disabled_constructor
  from disabled_wrapper_is_noop [OF ui dis tr ctor] ctor show ?thesis by simp
qed

section \<open>The external stylesheet\<close>

text \<open>
  Claim C2 says that every constructor call with a falsy \<^verbatim>\<open>ui.disable\<close> loads
  the stylesheet exactly when \<^verbatim>\<open>config.css\<close> is set. It fails for the options
  \<^verbatim>\<open>{ui: {css: 'skin.css'}, plugins: null}\<close>: the default parameter of
  \<^verbatim>\<open>_handleVr\<close> replaces \<^verbatim>\<open>undefined\<close> only, so reading
  \<^verbatim>\<open>null.vr\<close> on line 118 throws a \<^verbatim>\<open>TypeError\<close> after the UI was
  built and before line 30 is reached. The stylesheet is set and is not requested.
\<close>

theorem external_css_null_plugins_counterexample:
  "getp sample_env (heap null_plugins_world) (JRef 0) ''ui'' = Inr (JRef 1) \<and>
   \<not> truthy (rd sample_env (heap null_plugins_world) (JRef 1) ''disable'') \<and>
   truthy (rd sample_env (heap null_plugins_world) (JRef 1) ''css'') \<and>
   constructor sample_env (JHost 1) (JRef 0) null_plugins_world =
     (Throw TypeError,
      null_plugins_world\<lparr>trace := [NewUIManager 0 (JHost 1) (JRef 1),
                                      MgrCall 0 BuildDefaultUI]\<rparr>) \<and>
   filter is_load (trace (snd (constructor sample_env (JHost 1) (JRef 0) null_plugins_world))) = []"
proof -
  have ui: "getp sample_env (heap null_plugins_world) (JRef 0) ''ui'' = Inr (JRef 1)"
    by (simp add: null_plugins_world_def)
  have dis: "getp sample_env (heap null_plugins_world) (JRef 1) ''disable'' = Inr JUndefined"
    by (simp add: null_plugins_world_def)
  have falsy: "\<not> truthy JUndefined" by simp
  have pl: "rd sample_env (heap null_plugins_world) (JRef 0) ''plugins'' = JNull"
    by (simp add: rd_def null_plugins_world_def)
  have rds: "rd sample_env (heap null_plugins_world) (JRef 1) ''disable'' = JUndefined"
    "rd sample_env (heap null_plugins_world) (JRef 1) ''css'' = JStr ''skin.css''"
    "rd sample_env (heap null_plugins_world) (JRef 1) ''customPreset'' = JUndefined"
    by (simp_all add: rd_def null_plugins_world_def)
  have m: "fresh_mgr (trace null_plugins_world) = 0" "trace null_plugins_world = []"
    by (simp_all add: fresh_mgr_def null_plugins_world_def)
  have c: "constructor sample_env (JHost 1) (JRef 0) null_plugins_world =
     (Throw TypeError,
      null_plugins_world\<lparr>trace := [NewUIManager 0 (JHost 1) (JRef 1),
                                      MgrCall 0 BuildDefaultUI]\<rparr>)"
    using constructor_null_plugins [OF ui dis falsy pl, of "JHost 1"]
    unfolding rds m by (simp add: build_call_def fresh_mgr_def)
  show ?thesis unfolding c rds using ui by simp
qed

text \<open>
  Claim C2, amended. With a falsy \<^verbatim>\<open>ui.disable\<close> and a plugins configuration
  that is not \<^verbatim>\<open>null\<close>, the constructor returns, and it has asked for the stylesheet
  exactly when \<^verbatim>\<open>config.css\<close> is set (truthy when the constructor reads it):
  one \<^verbatim>\<open>loadStyleSheetAsync(config.css)\<close> call and one pending reaction, or none of
  either. The constructor does not wait: it logs nothing. When the load settles, the
  reaction adds exactly one log entry, a debug entry on success and an error entry on
  failure, and the promise made by \<^verbatim>\<open>then\<close> is fulfilled in both cases, so a
  failed load raises nothing.
\<close>

theorem external_css_is_fire_and_forget:
  assumes ui: "getp e (heap s0) options ''ui'' = Inr config"
    and dis: "getp e (heap s0) config ''disable'' = Inr d"
    and falsy: "\<not> truthy d"
    and pl: "rd e (heap s0) options ''plugins'' \<noteq> JNull"
    and s1: "s1 = snd (constructor e player options s0)"
    and css: "css = rd e (heap s1) config ''css''"
    and new: "new = drop (length (trace s0)) (trace s1)"
  shows "(\<exists>w. fst (constructor e player options s0) = Return w) \<and>
         trace s1 = trace s0 @ new \<and>
         filter is_load new = (if truthy css then [LoadStyleSheetAsync css] else []) \<and>
         pending s1 = pending s0 @ (if truthy css then [ExternalCssThen] else []) \<and>
         filter is_log new = [] \<and>
         (truthy css \<longrightarrow>
            settle (length (pending s0)) out s1 =
              Some (Fulfilled JUndefined,
                    s1\<lparr>pending := pending s0, trace := trace s1 @ [css_log out]\<rparr>)) \<and>
         run_reaction ExternalCssThen out s =
           (Fulfilled JUndefined, s\<lparr>trace := trace s @ [css_log out]\<rparr>) \<and>
         css_log (Fulfilled v) = LoggerDebug ''external css was loaded successfully'' \<and>
         css_log (Rejected v) = LoggerError ''external css failed to load''"
proof -
  note c = constructor_enabled [OF ui dis falsy pl, of player]
  have r: "\<exists>w. fst (constructor e player options s0) = Return w" using c by simp
  have h1: "heap s1 = heap_after_vr e (heap s0) (rd e (heap s0) options ''plugins'')"
    using c s1 by simp
  have t1: "trace s1 = trace s0 @
            [NewUIManager (fresh_mgr (trace s0)) player config,
             MgrCall (fresh_mgr (trace s0)) (build_call (rd e (heap s0) config ''customPreset''))] @
            vr_events e (heap s0) (fresh_mgr (trace s0)) (rd e (heap s0) options ''plugins'') @
            css_events css"
    using c s1 css h1 by simp
  have p1: "pending s1 = pending s0 @ css_reactions css"
    using c s1 css h1 by simp
  have rr: "run_reaction ExternalCssThen out t =
           (Fulfilled JUndefined, t\<lparr>trace := trace t @ [css_log out]\<rparr>)" for t
    by (cases out) simp_all
  have st: "settle (length (pending s0)) out s1 =
              Some (Fulfilled JUndefined,
                    s1\<lparr>pending := pending s0, trace := trace s1 @ [css_log out]\<rparr>)"
    if "truthy css"
    using that by (simp add: settle_def p1 css_reactions_def rr)
  have fl: "filter is_load new = (if truthy css then [LoadStyleSheetAsync css] else [])"
    using new t1 by (simp add: vr_events_def css_events_def)
  have lg: "filter is_log new = []"
    using new t1 by (simp add: vr_events_def css_events_def)
  have tn: "trace s1 = trace s0 @ new" using new t1 by simp
  have pn: "pending s1 = pending s0 @ (if truthy css then [ExternalCssThen] else [])"
    using p1 by (simp add: css_reactions_def)
  from r tn fl pn lg st rr show ?thesis by simp
qed

theorem external_css_is_fire_and_forget_witness:
  "fst (constructor sample_env (JHost 1) (JRef 0) sample_world) = Return sample_enabled \<and>
   filter is_load (trace (snd (constructor sample_env (JHost 1) (JRef 0) sample_world))) =
     [LoadStyleSheetAsync (JStr ''skin.css'')] \<and>
   pending (snd (constructor sample_env (JHost 1) (JRef 0) sample_world)) = [ExternalCssThen] \<and>
   filter is_log (trace (snd (constructor sample_env (JHost 1) (JRef 0) sample_world))) = [] \<and>
   map_option fst (settle 0 (Rejected (JStr ''404''))
      (snd (constructor sample_env (JHost 1) (JRef 0) sample_world))) =
     Some (Fulfilled JUndefined)"
proof -
  have falsy: "\<not> truthy JUndefined" by simp
  have pl: "rd sample_env (heap sample_world) (JRef 0) ''plugins'' \<noteq> JNull"
    by (simp add: sample_plugins)
  have w: "fst (constructor sample_env (JHost 1) (JRef 0) sample_world) = Return sample_enabled"
    using constructor_enabled [OF sample_ui sample_enabled_flag falsy pl, of "JHost 1"]
    by (simp add: sample_enabled_def fresh_mgr_def sample_world_def)
  have hp: "heap (snd (constructor sample_env (JHost 1) (JRef 0) sample_world)) =
              heap_after_vr sample_env sample_heap (JRef 2)"
    using constructor_enabled [OF sample_ui sample_enabled_flag falsy pl, of "JHost 1"]
    by (simp add: sample_plugins) (simp add: sample_world_def)
  have hv: "heap_after_vr sample_env sample_heap (JRef 2) =
              sample_heap @ [[(''vrStereoMode'', JBool True)],
                             [(''vrStereoMode'', JBool True)]]"
    by (simp add: heap_after_vr_def vr_stereo_wanted_def vr_merge_def rd_def sample_heap_def
          sample_env_def sample_base_def sample_mergeDeep_def Let_def)
  have css: "rd sample_env (heap (snd (constructor sample_env (JHost 1) (JRef 0) sample_world)))
               (JRef 1) ''css'' = JStr ''skin.css''"
    unfolding hp hv by (simp add: rd_def sample_heap_def)
  have t0: "trace sample_world = []" "pending sample_world = []"
    by (simp_all add: sample_world_def)
  note inst = external_css_is_fire_and_forget [OF sample_ui sample_enabled_flag falsy pl refl refl refl,
        of "JHost 1" "Rejected (JStr ''404'')"]
  from inst [unfolded css] w show ?thesis by (simp add: t0)
qed

section \<open>The stereo configuration of the VR plugin\<close>

text \<open>
  Claim C3. With a falsy \<^verbatim>\<open>ui.disable\<close> and a plugins configuration, the
  constructor makes a \<^verbatim>\<open>setConfig\<close> call with alias \<^verbatim>\<open>'vrStereo'\<close> exactly
  when \<^verbatim>\<open>plugins.vr\<close> exists, \<^verbatim>\<open>plugins.vr.disable\<close> is falsy, and
  \<^verbatim>\<open>plugins.vr.toggleStereo\<close> is truthy or the device is a mobile or a tablet and
  \<^verbatim>\<open>toggleStereo\<close> is not exactly \<^verbatim>\<open>false\<close>; otherwise it makes none. The
  call is made once, on the new manager, with a new object whose only property is
  \<^verbatim>\<open>vrStereoMode\<close>, the truth value of \<^verbatim>\<open>plugins.vr.startInStereo\<close>. The
  content of that object is what the playkit merge leaves in it, of which the contract
  above is assumed.
\<close>

theorem vr_stereo_config:
  assumes ui: "getp e (heap s0) options ''ui'' = Inr config"
    and dis: "getp e (heap s0) config ''disable'' = Inr d"
    and falsy: "\<not> truthy d"
    and pl: "getp e (heap s0) options ''plugins'' = Inr plugins"
    and notnull: "plugins \<noteq> JNull"
    and contract: "mergeDeep_contract e"
    and s1: "s1 = snd (constructor e player options s0)"
    and m: "m = fresh_mgr (trace s0)"
    and new: "new = drop (length (trace s0)) (trace s1)"
    and vr: "vr = rd e (heap s0) plugins ''vr''"
  shows "trace s1 = trace s0 @ new \<and>
         filter is_vrStereo new =
           (if truthy vr \<and> \<not> truthy (rd e (heap s0) vr ''disable'') \<and>
               (truthy (rd e (heap s0) vr ''toggleStereo'') \<or>
                ((isMobile e \<or> isTablet e) \<and> rd e (heap s0) vr ''toggleStereo'' \<noteq> JBool False))
            then [MgrCall m (MgrSetConfig (JRef (length (heap s0))) (JStr ''vrStereo''))]
            else []) \<and>
         (filter is_vrStereo new \<noteq> [] \<longrightarrow>
            own (heap s1) (JRef (length (heap s0))) k =
              (if k = ''vrStereoMode''
               then Some (JBool (truthy (rd e (heap s0) vr ''startInStereo'')))
               else None))"
proof -
  have p: "rd e (heap s0) options ''plugins'' = plugins" using pl by (rule getp_rd)
  have pn: "rd e (heap s0) options ''plugins'' \<noteq> JNull" using p notnull by simp
  note c = constructor_enabled [OF ui dis falsy pn, of player]
  note v = vr_merge_contract [OF contract, where h = "heap s0" and plugins = plugins]
  let ?wanted = "vr_stereo_wanted e (heap s0) plugins"
  have wd: "?wanted =
          (truthy vr \<and> \<not> truthy (rd e (heap s0) vr ''disable'') \<and>
               (truthy (rd e (heap s0) vr ''toggleStereo'') \<or>
                ((isMobile e \<or> isTablet e) \<and> rd e (heap s0) vr ''toggleStereo'' \<noteq> JBool False)))"
    by (simp add: vr_stereo_wanted_def Let_def vr)
  have t1: "trace s1 = trace s0 @
            [NewUIManager m player config,
             MgrCall m (build_call (rd e (heap s0) config ''customPreset''))] @
            vr_events e (heap s0) m plugins @
            css_events (rd e (heap_after_vr e (heap s0) plugins) config ''css'')"
    using c s1 m p by simp
  have tn: "trace s1 = trace s0 @ new" using new t1 by simp
  have fv: "filter is_vrStereo new =
           (if ?wanted
            then [MgrCall m (MgrSetConfig (JRef (length (heap s0))) (JStr ''vrStereo''))]
            else [])"
    using new t1 by (simp add: vr_events_def css_events_def build_call_def v(1))
  have h1: "heap s1 = heap_after_vr e (heap s0) plugins" using c s1 p by simp
  have ow: "own (heap s1) (JRef (length (heap s0))) k =
              (if k = ''vrStereoMode''
               then Some (JBool (truthy (rd e (heap s0) vr ''startInStereo'')))
               else None)" if "?wanted"
    using that v(4) [of k] by (simp add: h1 heap_after_vr_def vr)
  have ne: "?wanted" if "filter is_vrStereo new \<noteq> []"
    using that fv by (simp split: if_splits)
  have fv': "filter is_vrStereo new =
           (if truthy vr \<and> \<not> truthy (rd e (heap s0) vr ''disable'') \<and>
               (truthy (rd e (heap s0) vr ''toggleStereo'') \<or>
                ((isMobile e \<or> isTablet e) \<and> rd e (heap s0) vr ''toggleStereo'' \<noteq> JBool False))
            then [MgrCall m (MgrSetConfig (JRef (length (heap s0))) (JStr ''vrStereo''))]
            else [])"
    using fv unfolding wd .
  have ow': "filter is_vrStereo new \<noteq> [] \<longrightarrow>
            own (heap s1) (JRef (length (heap s0))) k =
              (if k = ''vrStereoMode''
               then Some (JBool (truthy (rd e (heap s0) vr ''startInStereo'')))
               else None)"
    using ow ne by blast
  from tn fv' ow' show ?thesis by (intro conjI)
qed

theorem vr_stereo_config_witness:
  "filter is_vrStereo (trace (snd (constructor sample_env (JHost 1) (JRef 0) sample_world))) =
     [MgrCall 0 (MgrSetConfig (JRef 9) (JStr ''vrStereo''))] \<and>
   own (heap (snd (constructor sample_env (JHost 1) (JRef 0) sample_world))) (JRef 9)
     ''vrStereoMode'' = Some (JBool True)"
proof -
  have falsy: "\<not> truthy JUndefined" by simp
  have pl: "getp sample_env (heap sample_world) (JRef 0) ''plugins'' = Inr (JRef 2)"
    by (simp add: sample_world_def sample_heap_def)
  have notnull: "JRef 2 \<noteq> JNull" by simp
  have m: "(0::nat) = fresh_mgr (trace sample_world)"
    by (simp add: fresh_mgr_def sample_world_def)
  have vr: "rd sample_env (heap sample_world) (JRef 2) ''vr'' = JRef 3"
    by (simp add: rd_def sample_world_def sample_heap_def)
  have rds: "rd sample_env (heap sample_world) (JRef 3) ''disable'' = JUndefined"
    "rd sample_env (heap sample_world) (JRef 3) ''toggleStereo'' = JUndefined"
    "rd sample_env (heap sample_world) (JRef 3) ''startInStereo'' = JBool True"
    by (simp_all add: rd_def sample_world_def sample_heap_def)
  have mob: "isMobile sample_env" by (simp add: sample_env_def sample_base_def)
  have len: "length (heap sample_world) = 9" "trace sample_world = []"
    by (simp_all add: sample_world_def sample_heap_def)
  note inst = vr_stereo_config [OF sample_ui sample_enabled_flag falsy pl notnull
        sample_mergeDeep_contract refl m refl refl, of "JHost 1" "''vrStereoMode''",
        unfolded vr rds len]
  from inst mob show ?thesis by simp
qed

section \<open>The enabled wrapper forwards to its manager\<close>

text \<open>
  Claim C4. On a wrapper constructed with a falsy \<^verbatim>\<open>ui.disable\<close>, each of
  \<^verbatim>\<open>setConfig\<close>, \<^verbatim>\<open>addComponent\<close>, \<^verbatim>\<open>registerManager\<close>,
  \<^verbatim>\<open>getManager\<close> and \<^verbatim>\<open>hasManager\<close> makes exactly one call, of the method
  of the same name with the same arguments, on the manager the constructor created;
  \<^verbatim>\<open>addComponent\<close>, \<^verbatim>\<open>getManager\<close> and \<^verbatim>\<open>hasManager\<close> return what
  the manager answers, the other two return \<^verbatim>\<open>undefined\<close>.
\<close>

theorem enabled_wrapper_forwards:
  assumes ui: "getp e (heap s0) options ''ui'' = Inr config"
    and dis: "getp e (heap s0) config ''disable'' = Inr d"
    and falsy: "\<not> truthy d"
    and ctor: "constructor e player options s0 = (Return w, s1)"
    and m: "m = fresh_mgr (trace s0)"
  shows "priv_uiManager w = Some m \<and>
         NewUIManager m player config \<in> set (trace s1) \<and>
         invoke e w ''setConfig'' args s =
           (Return JUndefined, w,
            s\<lparr>trace := trace s @ [MgrCall m (MgrSetConfig (arg 0 args) (arg 1 args))]\<rparr>) \<and>
         invoke e w ''addComponent'' args s =
           (Return (mgr_result e (trace s) m (MgrAddComponent (arg 0 args))), w,
            s\<lparr>trace := trace s @ [MgrCall m (MgrAddComponent (arg 0 args))]\<rparr>) \<and>
         invoke e w ''registerManager'' args s =
           (Return JUndefined, w,
            s\<lparr>trace := trace s @ [MgrCall m (MgrRegisterManager (arg 0 args) (arg 1 args))]\<rparr>) \<and>
         invoke e w ''getManager'' args s =
           (Return (mgr_result e (trace s) m (MgrGetManager (arg 0 args))), w,
            s\<lparr>trace := trace s @ [MgrCall m (MgrGetManager (arg 0 args))]\<rparr>) \<and>
         invoke e w ''hasManager'' args s =
           (Return (mgr_result e (trace s) m (MgrHasManager (arg 0 args))), w,
            s\<lparr>trace := trace s @ [MgrCall m (MgrHasManager (arg 0 args))]\<rparr>)"
proof -
  have w: "w = \<lparr>priv_disabled = False, priv_uiManager = Some m\<rparr>"
    using constructor_returned_enabled [OF ui dis falsy ctor] m by simp
  have en: "priv_disabled w = False" "priv_uiManager w = Some m" using w by simp_all
  have nd: "\<not> priv_disabled w" using en by simp
  have pl: "rd e (heap s0) options ''plugins'' \<noteq> JNull"
    using ui dis falsy ctor by (rule constructor_returned_plugins)
  have "s1 = snd (constructor e player options s0)" using ctor by simp
  then have new: "NewUIManager m player config \<in> set (trace s1)"
    using constructor_enabled [OF ui dis falsy pl, of player] m by simp
  have c1: "invoke e w ''setConfig'' args s =
           (Return JUndefined, w,
            s\<lparr>trace := trace s @ [MgrCall m (MgrSetConfig (arg 0 args) (arg 1 args))]\<rparr>)"
    using invoke_method [OF nd, of e M_setConfig args s]
    by (simp add: call_method_def setConfig_enabled [OF en])
  have c2: "invoke e w ''addComponent'' args s =
           (Return (mgr_result e (trace s) m (MgrAddComponent (arg 0 args))), w,
            s\<lparr>trace := trace s @ [MgrCall m (MgrAddComponent (arg 0 args))]\<rparr>)"
    using invoke_method [OF nd, of e M_addComponent args s]
    by (simp add: call_method_def addComponent_def mgr_method_enabled [OF en])
  have c3: "invoke e w ''registerManager'' args s =
           (Return JUndefined, w,
            s\<lparr>trace := trace s @ [MgrCall m (MgrRegisterManager (arg 0 args) (arg 1 args))]\<rparr>)"
    using invoke_method [OF nd, of e M_registerManager args s]
    by (simp add: call_method_def registerManager_def mgr_method_enabled [OF en] discard_def)
  have c4: "invoke e w ''getManager'' args s =
           (Return (mgr_result e (trace s) m (MgrGetManager (arg 0 args))), w,
            s\<lparr>trace := trace s @ [MgrCall m (MgrGetManager (arg 0 args))]\<rparr>)"
    using invoke_method [OF nd, of e M_getManager args s]
    by (simp add: call_method_def getManager_def mgr_method_enabled [OF en])
  have c5: "invoke e w ''hasManager'' args s =
           (Return (mgr_result e (trace s) m (MgrHasManager (arg 0 args))), w,
            s\<lparr>trace := trace s @ [MgrCall m (MgrHasManager (arg 0 args))]\<rparr>)"
    using invoke_method [OF nd, of e M_hasManager args s]
    by (simp add: call_method_def hasManager_def mgr_method_enabled [OF en])
  from en(2) new c1 c2 c3 c4 c5 show ?thesis by simp
qed

theorem enabled_wrapper_forwards_witness:
  "fst (constructor sample_env (JHost 1) (JRef 0) sample_world) = Return sample_enabled \<and>
   invoke sample_env sample_enabled ''hasManager'' [JStr ''timeline''] sample_world =
     (Return (JHost 0), sample_enabled,
      sample_world\<lparr>trace := [MgrCall 0 (MgrHasManager (JStr ''timeline''))]\<rparr>) \<and>
   invoke sample_env sample_enabled ''setConfig'' [JRef 8] sample_world =
     (Return JUndefined, sample_enabled,
      sample_world\<lparr>trace := [MgrCall 0 (MgrSetConfig (JRef 8) JUndefined)]\<rparr>)"
proof -
  have falsy: "\<not> truthy JUndefined" by simp
  have pl: "rd sample_env (heap sample_world) (JRef 0) ''plugins'' \<noteq> JNull"
    by (simp add: sample_plugins)
  have m: "(0::nat) = fresh_mgr (trace sample_world)"
    by (simp add: fresh_mgr_def sample_world_def)
  obtain s1 where ctor:
    "constructor sample_env (JHost 1) (JRef 0) sample_world = (Return sample_enabled, s1)"
    using constructor_enabled [OF sample_ui sample_enabled_flag falsy pl, of "JHost 1"] m
    by (simp add: sample_enabled_def)
  have tr: "trace sample_world = []" by (simp add: sample_world_def)
  have mr: "mgr_result sample_env [] 0 (MgrHasManager (JStr ''timeline'')) = JHost 0"
    by (simp add: sample_env_def sample_base_def)
  from enabled_wrapper_forwards [OF sample_ui sample_enabled_flag falsy ctor m,
        of "[JStr ''timeline'']" sample_world]
       enabled_wrapper_forwards [OF sample_ui sample_enabled_flag falsy ctor m,
        of "[JRef 8]" sample_world]
       ctor
  show ?thesis by (simp add: arg_def tr mr)
qed

section \<open>Building the user interface\<close>

text \<open>
  Claim C5. With a falsy \<^verbatim>\<open>ui.disable\<close> the constructor first creates one
  \<^verbatim>\<open>UIManager\<close> from the player and the UI configuration and then calls, on that
  manager and once, \<^verbatim>\<open>buildCustomUI(config.customPreset)\<close> when
  \<^verbatim>\<open>config.customPreset\<close> is set (truthy) and \<^verbatim>\<open>buildDefaultUI()\<close>
  otherwise. No other manager is created, no other build call is made, and the wrapper
  itself touches no DOM element. This holds whether or not the rest of the constructor
  completes.
\<close>

theorem constructor_delegates_ui_build:
  assumes ui: "getp e (heap s0) options ''ui'' = Inr config"
    and dis: "getp e (heap s0) config ''disable'' = Inr d"
    and falsy: "\<not> truthy d"
    and cp: "getp e (heap s0) config ''customPreset'' = Inr customPreset"
    and s1: "s1 = snd (constructor e player options s0)"
    and m: "m = fresh_mgr (trace s0)"
    and new: "new = drop (length (trace s0)) (trace s1)"
  shows "trace s1 = trace s0 @ new \<and>
         take 2 new =
           [NewUIManager m player config,
            MgrCall m (if truthy customPreset then BuildCustomUI customPreset
                       else BuildDefaultUI)] \<and>
         filter is_NewUIManager new = [NewUIManager m player config] \<and>
         filter is_build new =
           [MgrCall m (if truthy customPreset then BuildCustomUI customPreset
                       else BuildDefaultUI)] \<and>
         filter is_dom new = []"
proof -
  have c: "rd e (heap s0) config ''customPreset'' = customPreset" using cp by (rule getp_rd)
  show ?thesis
  proof (cases "rd e (heap s0) options ''plugins'' = JNull")
    case True
    have "trace s1 = trace s0 @ [NewUIManager m player config, MgrCall m (build_call customPreset)]"
      using constructor_null_plugins [OF ui dis falsy True, of player] s1 m c by simp
    then show ?thesis using new by (simp add: build_call_def)
  next
    case False
    have "trace s1 = trace s0 @
            [NewUIManager m player config, MgrCall m (build_call customPreset)] @
            vr_events e (heap s0) m (rd e (heap s0) options ''plugins'') @
            css_events (rd e (heap_after_vr e (heap s0) (rd e (heap s0) options ''plugins''))
                          config ''css'')"
      using constructor_enabled [OF ui dis falsy False, of player] s1 m c by simp
    then show ?thesis using new
      by (simp add: build_call_def vr_events_def css_events_def)
  qed
qed

theorem constructor_delegates_ui_build_witness:
  "filter is_build (trace (snd (constructor sample_env (JHost 1) (JRef 0) sample_world))) =
     [MgrCall 0 BuildDefaultUI] \<and>
   filter is_dom (trace (snd (constructor sample_env (JHost 1) (JRef 0) sample_world))) = []"
proof -
  have falsy: "\<not> truthy JUndefined" by simp
  have cp: "getp sample_env (heap sample_world) (JRef 1) ''customPreset'' = Inr JUndefined"
    by (simp add: sample_world_def sample_heap_def)
  have m: "(0::nat) = fresh_mgr (trace sample_world)"
    by (simp add: fresh_mgr_def sample_world_def)
  have t0: "trace sample_world = []" by (simp add: sample_world_def)
  from constructor_delegates_ui_build [OF sample_ui sample_enabled_flag falsy cp refl m refl,
        of "JHost 1"]
  show ?thesis by (simp add: t0)
qed

section \<open>The two module-level helpers\<close>

text \<open>
  Claim C6 says that both helpers outside the class merge configuration and have no
  other observable effect. It fails for \<open>appendPlayerViewToTargetContainer\<close>: with
  the placeholder element in the document it appends the player view to it, a change
  of the DOM, and it produces no configuration at all (the store is as before).
\<close>

theorem helper_appends_to_dom_counterexample:
  "appendPlayerViewToTargetContainer sample_env (JStr ''player-placeholder'') (JHost 9)
     sample_world = sample_world\<lparr>trace := [AppendChild 5 (JHost 9)]\<rparr> \<and>
   filter is_dom (trace (appendPlayerViewToTargetContainer sample_env
     (JStr ''player-placeholder'') (JHost 9) sample_world)) \<noteq> [] \<and>
   heap (appendPlayerViewToTargetContainer sample_env (JStr ''player-placeholder'') (JHost 9)
     sample_world) = heap sample_world"
  by (simp add: appendPlayerViewToTargetContainer_def sample_env_def sample_base_def
        sample_world_def)

text \<open>
  Claim C6, amended. Neither helper merges anything. The first one appends the player
  view to the target element when the document has it and does nothing otherwise,
  leaving the store alone. The second one only builds a new object holding the three
  preview-thumbnail defaults (the sprite URL from \<^verbatim>\<open>getThumbSlicesUrl\<close>, the
  default width and the default number of slices): it changes no object that existed
  and the seekbar configuration enters only as an argument of
  \<^verbatim>\<open>getThumbSlicesUrl\<close>. The merging is done by \<^verbatim>\<open>Utils.Object.mergeDeep\<close>
  in the methods of the class.
\<close>

theorem helpers_append_view_and_build_defaults:
  "appendPlayerViewToTargetContainer e targetId view s =
     s\<lparr>trace := trace s @
          (case getElementById e targetId of
             Some el \<Rightarrow> [AppendChild el view]
           | None \<Rightarrow> [])\<rparr> \<and>
   heap (appendPlayerViewToTargetContainer e targetId view s) = heap s \<and>
   getPreviewThumbnailConfig e h mediaConfig seekbarConfig =
     (h @ [[(''thumbsSprite'', getThumbSlicesUrl e h mediaConfig seekbarConfig),
            (''thumbsWidth'', JNum (DEFAULT_THUMBS_WIDTH e)),
            (''thumbsSlices'', JNum (DEFAULT_THUMBS_SLICES e))]],
      JRef (length h)) \<and>
   take (length h) (fst (getPreviewThumbnailConfig e h mediaConfig seekbarConfig)) = h \<and>
   own (fst (getPreviewThumbnailConfig e h mediaConfig seekbarConfig))
       (snd (getPreviewThumbnailConfig e h mediaConfig seekbarConfig)) k =
     map_of (thumb_defaults e h mediaConfig seekbarConfig) k"
  by (cases "getElementById e targetId")
     (simp_all add: appendPlayerViewToTargetContainer_def getPreviewThumbnailConfig_def
        alloc_def thumb_defaults_def)

section \<open>The fields of the wrapper\<close>

text \<open>
  Claim C7. The wrapper holds no evolving state. When the constructor returns,
  \<^verbatim>\<open>_disabled\<close> is the truth value of \<^verbatim>\<open>options.ui.disable\<close> and
  \<^verbatim>\<open>_uiManager\<close> is set exactly when the wrapper is not disabled; no public or
  private method, called directly or through the proxy, changes either field, and so
  they are the same after any sequence of method calls and stylesheet settlements.
\<close>

theorem wrapper_fields_are_fixed:
  assumes ui: "getp e (heap s0) options ''ui'' = Inr config"
    and dis: "getp e (heap s0) config ''disable'' = Inr d"
    and ctor: "constructor e player options s0 = (Return w, s1)"
  shows "priv_disabled w = truthy d \<and>
         (priv_uiManager w = None) = truthy d \<and>
         fst (snd (call_method e r w mm args s)) = w \<and>
         fst (snd (invoke e w p args s)) = w \<and>
         fst (run e steps (w, s)) = w"
proof -
  have "priv_disabled w = truthy d \<and> (priv_uiManager w = None) = truthy d"
  proof (cases "truthy d")
    case True
    then show ?thesis using constructor_disabled_returned [OF ui dis True ctor] by simp
  next
    case False
    then show ?thesis using constructor_returned_enabled [OF ui dis False ctor] by simp
  qed
  then show ?thesis
    by (simp add: wrapper_call_method wrapper_invoke wrapper_run)
qed

theorem wrapper_fields_are_fixed_witness:
  "constructor sample_env (JHost 1) (JRef 4) sample_world =
     (Return sample_disabled, sample_world\<lparr>trace := [AppendChild 5 (JHost 9)]\<rparr>) \<and>
   priv_disabled sample_disabled = truthy (JBool True) \<and>
   fst (run sample_env
          [Call M_setConfig [JRef 8, JStr ''seekbar''], Settle 0 (Rejected JUndefined),
           Call M_handleVr [JNull], Call M_destroy []]
          (sample_disabled, sample_world)) = sample_disabled"
proof -
  have ui: "getp sample_env (heap sample_world) (JRef 4) ''ui'' = Inr (JRef 5)"
    by (simp add: sample_world_def sample_heap_def)
  have dis: "getp sample_env (heap sample_world) (JRef 5) ''disable'' = Inr (JBool True)"
    by (simp add: sample_world_def sample_heap_def)
  note ctor = sample_disabled_constructor
  note fixed = wrapper_fields_are_fixed [OF ui dis ctor,
        where steps = "[Call M_setConfig [JRef 8, JStr ''seekbar''], Settle 0 (Rejected JUndefined),
           Call M_handleVr [JNull], Call M_destroy []]" and s = sample_world]
  from fixed [THEN conjunct1] fixed [THEN conjunct2, THEN conjunct2, THEN conjunct2, THEN conjunct2]
       ctor
  show ?thesis by blast
qed

section \<open>The seekbar configuration\<close>

text \<open>
  Claim C8. On a wrapper constructed with a falsy \<^verbatim>\<open>ui.disable\<close>,
  \<^verbatim>\<open>setSeekbarConfig(mediaConfig, uiConfig)\<close> makes one \<^verbatim>\<open>setConfig\<close> call
  with alias \<^verbatim>\<open>'seekbar'\<close> and a new object. In that object every property of
  \<^verbatim>\<open>uiConfig.components.seekbar\<close> has the value given there, and the three
  preview-thumbnail defaults (sprite URL, default width, default slices) appear only
  for the properties the seekbar configuration does not have. No object that existed
  before the call, so neither \<^verbatim>\<open>mediaConfig\<close> nor \<^verbatim>\<open>uiConfig\<close>, is changed.
  The playkit functions are taken by their contract: \<^verbatim>\<open>getPropertyPath\<close> reads
  the path and \<^verbatim>\<open>mergeDeep\<close> behaves as assumed above; the seekbar configuration
  and the sprite URL have the primitive values their types declare.
\<close>

theorem seekbar_config_overrides_defaults:
  assumes ui: "getp e (heap s0) options ''ui'' = Inr config"
    and dis: "getp e (heap s0) config ''disable'' = Inr d"
    and falsy: "\<not> truthy d"
    and ctor: "constructor e player options s0 = (Return w, s1)"
    and m: "m = fresh_mgr (trace s0)"
    and contract: "mergeDeep_contract e"
    and path: "getPropertyPath e (heap s) uiConfig ''components.seekbar'' =
                 path_read e (heap s) uiConfig [''components'', ''seekbar'']"
    and sb: "seekbarConfig = path_read e (heap s) uiConfig [''components'', ''seekbar'']"
    and flat: "flat_config (heap s) seekbarConfig"
    and sprite: "is_prim (getThumbSlicesUrl e (heap s) mediaConfig seekbarConfig)"
    and s': "s' = snd (snd (invoke e w ''setSeekbarConfig'' [mediaConfig, uiConfig] s))"
    and merged: "merged = JRef (Suc (length (heap s)))"
  shows "invoke e w ''setSeekbarConfig'' [mediaConfig, uiConfig] s = (Return JUndefined, w, s') \<and>
         trace s' = trace s @ [MgrCall m (MgrSetConfig merged (JStr ''seekbar''))] \<and>
         pending s' = pending s \<and>
         length (heap s) \<le> length (heap s') \<and>
         (\<forall>a < length (heap s). heap s' ! a = heap s ! a) \<and>
         own (heap s') merged k =
           (case own (heap s) seekbarConfig k of
              Some v \<Rightarrow> Some v
            | None \<Rightarrow> map_of [(''thumbsSprite'', getThumbSlicesUrl e (heap s) mediaConfig seekbarConfig),
                               (''thumbsWidth'', JNum (DEFAULT_THUMBS_WIDTH e)),
                               (''thumbsSlices'', JNum (DEFAULT_THUMBS_SLICES e))] k)"
proof -
  let ?n = "length (heap s)"
  let ?D = "thumb_defaults e (heap s) mediaConfig seekbarConfig"
  let ?h2 = "heap s @ [?D, []]"
  let ?srcs = "[JRef ?n, seekbarConfig]"
  let ?md = "mergeDeep e ?h2 (JRef (Suc ?n)) ?srcs"
  have w: "w = \<lparr>priv_disabled = False, priv_uiManager = Some m\<rparr>"
    using constructor_returned_enabled [OF ui dis falsy ctor] m by simp
  have en: "priv_disabled w = False" "priv_uiManager w = Some m" using w by simp_all
  have nd: "\<not> priv_disabled w" using en by simp
  have gp: "getPropertyPath e (heap s) uiConfig ''components.seekbar'' = seekbarConfig"
    using path sb by simp
  have t: "Suc ?n < length ?h2" by simp
  have emp: "?h2 ! Suc ?n = []" by (simp add: nth_append)
  have src: "\<forall>x \<in> set ?srcs. x = JUndefined \<or> (\<exists>a. x = JRef a \<and> a < length ?h2)"
    using flat_valid_source [OF flat, of "[?D, []]"] by auto
  note d = mergeDeep_contractD [OF contract t emp src]
  have inv: "invoke e w ''setSeekbarConfig'' [mediaConfig, uiConfig] s =
        (Return JUndefined, w,
         s\<lparr>heap := fst ?md,
           trace := trace s @ [MgrCall m (MgrSetConfig (snd ?md) (JStr ''seekbar''))]\<rparr>)"
    using invoke_method [OF nd, of e M_setSeekbarConfig "[mediaConfig, uiConfig]" s]
    by (simp add: call_method_def setSeekbarConfig_def Let_def arg_def gp
          getPreviewThumbnailConfig_def alloc_def thumb_defaults_def
          this_call_enabled [OF en(1)] setConfig_enabled [OF en] discard_def
          split: prod.splits)
  have s'eq: "s' = s\<lparr>heap := fst ?md,
           trace := trace s @ [MgrCall m (MgrSetConfig merged (JStr ''seekbar''))]\<rparr>"
    using s' inv d(1) merged by simp
  have hs: "heap s' = fst ?md" using s'eq by simp
  have c1: "invoke e w ''setSeekbarConfig'' [mediaConfig, uiConfig] s = (Return JUndefined, w, s')"
    using inv s'eq d(1) merged by simp
  have c2: "trace s' = trace s @ [MgrCall m (MgrSetConfig merged (JStr ''seekbar''))]"
    using s'eq by simp
  have c3: "pending s' = pending s" using s'eq by simp
  have c4: "length (heap s) \<le> length (heap s')" using d(2) hs by simp
  have c5: "\<forall>a < length (heap s). heap s' ! a = heap s ! a"
  proof (intro allI impI)
    fix a assume a: "a < length (heap s)"
    then have "a < length ?h2" "a \<noteq> Suc ?n" by simp_all
    from d(3) [OF this] a show "heap s' ! a = heap s ! a" by (simp add: hs nth_append)
  qed
  have osb: "own ?h2 seekbarConfig k = own (heap s) seekbarConfig k"
    using flat by (rule flat_own_append)
  have odf: "own ?h2 (JRef ?n) k = map_of ?D k" by (simp add: nth_append)
  have ld: "last_defined ?h2 ?srcs k =
          (case own (heap s) seekbarConfig k of Some v \<Rightarrow> Some v | None \<Rightarrow> map_of ?D k)"
    by (simp add: osb odf del: own.simps split: option.splits)
  have prim: "is_prim v" if "last_defined ?h2 ?srcs k = Some v" for v
  proof (cases "own (heap s) seekbarConfig k")
    case None
    with that ld have "map_of ?D k = Some v" by simp
    then show ?thesis using sprite by (auto simp add: thumb_defaults_def split: if_splits)
  next
    case (Some x)
    with that ld have "x = v" by simp
    with Some flat show ?thesis by (auto dest: flat_own_prim)
  qed
  have c6: "own (heap s') merged k =
          (case own (heap s) seekbarConfig k of Some v \<Rightarrow> Some v | None \<Rightarrow> map_of ?D k)"
  proof (cases "last_defined ?h2 ?srcs k")
    case None
    from d(4) [OF None] None ld show ?thesis by (simp add: hs merged del: own.simps)
  next
    case (Some v)
    from d(5) [OF Some prim [OF Some]] Some ld show ?thesis
      by (simp add: hs merged del: own.simps)
  qed
  from c1 c2 c3 c4 c5 c6 [unfolded thumb_defaults_def] show ?thesis by (intro conjI)
qed

theorem seekbar_config_overrides_defaults_witness:
  "trace (snd (snd (invoke sample_env sample_enabled ''setSeekbarConfig'' [JRef 0, JRef 6]
      sample_world))) = [MgrCall 0 (MgrSetConfig (JRef 10) (JStr ''seekbar''))] \<and>
   own (heap (snd (snd (invoke sample_env sample_enabled ''setSeekbarConfig'' [JRef 0, JRef 6]
      sample_world)))) (JRef 10) ''thumbsWidth'' = Some (JNum 200) \<and>
   own (heap (snd (snd (invoke sample_env sample_enabled ''setSeekbarConfig'' [JRef 0, JRef 6]
      sample_world)))) (JRef 10) ''thumbsSlices'' = Some (JNum 100)"
proof -
  have falsy: "\<not> truthy JUndefined" by simp
  have pl: "rd sample_env (heap sample_world) (JRef 0) ''plugins'' \<noteq> JNull"
    by (simp add: sample_plugins)
  have m: "(0::nat) = fresh_mgr (trace sample_world)"
    by (simp add: fresh_mgr_def sample_world_def)
  obtain s1 where ctor:
    "constructor sample_env (JHost 1) (JRef 0) sample_world = (Return sample_enabled, s1)"
    using constructor_enabled [OF sample_ui sample_enabled_flag falsy pl, of "JHost 1"] m
    by (simp add: sample_enabled_def)
  have hp: "heap sample_world = sample_heap" by (simp add: sample_world_def)
  have pr: "path_read sample_env sample_heap (JRef 6) [''components'', ''seekbar''] = JRef 8"
    by (simp add: sample_heap_def)
  have path: "getPropertyPath sample_env (heap sample_world) (JRef 6) ''components.seekbar'' =
                 path_read sample_env (heap sample_world) (JRef 6) [''components'', ''seekbar'']"
    unfolding hp pr by (simp add: sample_env_def sample_base_def sample_heap_def)
  have sb: "JRef 8 = path_read sample_env (heap sample_world) (JRef 6) [''components'', ''seekbar'']"
    unfolding hp pr ..
  have flat: "flat_config (heap sample_world) (JRef 8)"
    by (simp add: hp sample_heap_def)
  have sprite: "is_prim (getThumbSlicesUrl sample_env (heap sample_world) (JRef 0) (JRef 8))"
    by (simp add: sample_env_def sample_base_def)
  have len: "Suc (length (heap sample_world)) = 10" "trace sample_world = []"
    by (simp_all add: sample_world_def sample_heap_def)
  have ow: "own (heap sample_world) (JRef 8) ''thumbsWidth'' = Some (JNum 200)"
    "own (heap sample_world) (JRef 8) ''thumbsSlices'' = None"
    by (simp_all add: sample_world_def sample_heap_def)
  have dw: "DEFAULT_THUMBS_SLICES sample_env = 100"
    by (simp add: sample_env_def sample_base_def)
  note a = seekbar_config_overrides_defaults [OF sample_ui sample_enabled_flag falsy ctor m
        sample_mergeDeep_contract path sb flat sprite refl refl, where k = "''thumbsWidth''",
        unfolded len ow]
  note b = seekbar_config_overrides_defaults [OF sample_ui sample_enabled_flag falsy ctor m
        sample_mergeDeep_contract path sb flat sprite refl refl, where k = "''thumbsSlices''",
        unfolded len ow]
  from a b show ?thesis by (simp add: dw del: own.simps)
qed

section \<open>The disabled constructor and the target container\<close>

text \<open>
  Claim C9 says that every constructor call with a truthy \<^verbatim>\<open>ui.disable\<close> appends
  the player view exactly when the target element exists and completes without throwing
  when it does not. It fails when \<^verbatim>\<open>player\<close> is \<^verbatim>\<open>null\<close>: line 21
  evaluates \<^verbatim>\<open>player.getView()\<close> before the helper looks for the element, so
  the constructor throws a \<^verbatim>\<open>TypeError\<close>, both when the target element is
  missing and when it is there (and then nothing is appended to it).
\<close>

theorem disabled_constructor_null_player_counterexample:
  "getElementById sample_env (JStr ''nowhere'') = None \<and>
   constructor sample_env JNull (JRef 0) missing_target_world =
     (Throw TypeError, missing_target_world) \<and>
   getElementById sample_env (JStr ''player-placeholder'') = Some 5 \<and>
   constructor sample_env JNull (JRef 4) sample_world = (Throw TypeError, sample_world)"
  by (simp add: constructor_def Let_def missing_target_world_def sample_world_def
        sample_heap_def sample_env_def sample_base_def)

text \<open>
  Claim C9, amended. With a truthy \<^verbatim>\<open>ui.disable\<close> and a player whose
  \<^verbatim>\<open>getView()\<close> returns its view, the constructor returns without throwing, and
  its only effect is on the DOM: when the document has an element whose id is
  \<^verbatim>\<open>config.targetId\<close>, the player view is appended to that element, once; when
  it has none, nothing at all changes.
\<close>

theorem disabled_constructor_appends_view:
  assumes ui: "getp e (heap s0) options ''ui'' = Inr config"
    and dis: "getp e (heap s0) config ''disable'' = Inr d"
    and tr: "truthy d"
    and tid: "getp e (heap s0) config ''targetId'' = Inr targetId"
    and gv: "player_getView e (heap s0) player = Inr view"
  shows "constructor e player options s0 =
           (Return \<lparr>priv_disabled = True, priv_uiManager = None\<rparr>,
            s0\<lparr>trace := trace s0 @
                 (case getElementById e targetId of
                    Some el \<Rightarrow> [AppendChild el view]
                  | None \<Rightarrow> [])\<rparr>) \<and>
         (getElementById e targetId = None \<longrightarrow>
            snd (constructor e player options s0) = s0) \<and>
         ((\<exists>el v. AppendChild el v \<in> set (drop (length (trace s0))
                      (trace (snd (constructor e player options s0))))) \<longleftrightarrow>
          getElementById e targetId \<noteq> None)"
proof -
  have t: "rd e (heap s0) config ''targetId'' = targetId" using tid by (rule getp_rd)
  have c: "constructor e player options s0 =
           (Return \<lparr>priv_disabled = True, priv_uiManager = None\<rparr>,
            s0\<lparr>trace := trace s0 @
                 (case getElementById e targetId of
                    Some el \<Rightarrow> [AppendChild el view]
                  | None \<Rightarrow> [])\<rparr>)"
    using constructor_disabled [OF ui dis tr, of player]
    by (simp add: t gv appendPlayerViewToTargetContainer_def split: option.splits)
  show ?thesis
    by (cases "getElementById e targetId") (simp_all add: c)
qed

theorem disabled_constructor_appends_view_witness:
  "constructor sample_env (JHost 1) (JRef 4) sample_world =
     (Return \<lparr>priv_disabled = True, priv_uiManager = None\<rparr>,
      sample_world\<lparr>trace := [AppendChild 5 (JHost 9)]\<rparr>) \<and>
   getElementById sample_env (JStr ''player-placeholder'') = Some 5"
proof -
  have ui: "getp sample_env (heap sample_world) (JRef 4) ''ui'' = Inr (JRef 5)"
    by (simp add: sample_world_def sample_heap_def)
  have dis: "getp sample_env (heap sample_world) (JRef 5) ''disable'' = Inr (JBool True)"
    by (simp add: sample_world_def sample_heap_def)
  have tr: "truthy (JBool True)" by simp
  have tid: "getp sample_env (heap sample_world) (JRef 5) ''targetId'' =
               Inr (JStr ''player-placeholder'')"
    by (simp add: sample_world_def sample_heap_def)
  have gv: "player_getView sample_env (heap sample_world) (JHost 1) = Inr (JHost 9)"
    by (simp add: sample_env_def sample_base_def)
  have el: "getElementById sample_env (JStr ''player-placeholder'') = Some 5"
    by (simp add: sample_env_def sample_base_def)
  have t0: "trace sample_world = []" by (simp add: sample_world_def)
  from disabled_constructor_appends_view [OF ui dis tr tid gv, THEN conjunct1]
  show ?thesis by (simp add: el t0)
qed

section \<open>Reset and the loading spinner\<close>

text \<open>
  Claim C10. On a wrapper constructed with a falsy \<^verbatim>\<open>ui.disable\<close>,
  \<^verbatim>\<open>reset()\<close> does what \<^verbatim>\<open>setConfig({hasError: false}, 'engine')\<close> does and
  \<^verbatim>\<open>setLoadingSpinnerState(show)\<close> does what
  \<^verbatim>\<open>setConfig({show: show}, 'loading')\<close> does: the object literal is allocated and
  exactly one \<^verbatim>\<open>setConfig\<close> call reaches the manager, with that object and that
  alias; nothing else changes and \<^verbatim>\<open>undefined\<close> is returned.
\<close>

theorem reset_and_spinner_are_setConfig:
  assumes ui: "getp e (heap s0) options ''ui'' = Inr config"
    and dis: "getp e (heap s0) config ''disable'' = Inr d"
    and falsy: "\<not> truthy d"
    and ctor: "constructor e player options s0 = (Return w, s1)"
    and m: "m = fresh_mgr (trace s0)"
  shows "invoke e w ''reset'' args s =
           invoke e w ''setConfig'' [snd (alloc (heap s) [(''hasError'', JBool False)]), JStr ''engine'']
             (s\<lparr>heap := fst (alloc (heap s) [(''hasError'', JBool False)])\<rparr>) \<and>
         invoke e w ''reset'' args s =
           (Return JUndefined, w,
            s\<lparr>heap := heap s @ [[(''hasError'', JBool False)]],
              trace := trace s @
                [MgrCall m (MgrSetConfig (JRef (length (heap s))) (JStr ''engine''))]\<rparr>) \<and>
         invoke e w ''setLoadingSpinnerState'' args s =
           invoke e w ''setConfig'' [snd (alloc (heap s) [(''show'', arg 0 args)]), JStr ''loading'']
             (s\<lparr>heap := fst (alloc (heap s) [(''show'', arg 0 args)])\<rparr>) \<and>
         invoke e w ''setLoadingSpinnerState'' args s =
           (Return JUndefined, w,
            s\<lparr>heap := heap s @ [[(''show'', arg 0 args)]],
              trace := trace s @
                [MgrCall m (MgrSetConfig (JRef (length (heap s))) (JStr ''loading''))]\<rparr>)"
proof -
  have w: "w = \<lparr>priv_disabled = False, priv_uiManager = Some m\<rparr>"
    using constructor_returned_enabled [OF ui dis falsy ctor] m by simp
  have en: "priv_disabled w = False" "priv_uiManager w = Some m" using w by simp_all
  have nd: "\<not> priv_disabled w" using en by simp
  have sc: "\<And>a t. invoke e w ''setConfig'' a t =
           (Return JUndefined, w,
            t\<lparr>trace := trace t @ [MgrCall m (MgrSetConfig (arg 0 a) (arg 1 a))]\<rparr>)"
    using invoke_method [OF nd, of e M_setConfig]
    by (simp add: call_method_def setConfig_enabled [OF en])
  have r: "invoke e w ''reset'' args s =
           (Return JUndefined, w,
            s\<lparr>heap := heap s @ [[(''hasError'', JBool False)]],
              trace := trace s @
                [MgrCall m (MgrSetConfig (JRef (length (heap s))) (JStr ''engine''))]\<rparr>)"
    using invoke_method [OF nd, of e M_reset args s]
    by (simp add: call_method_def reset_def priv_resetErrorState_def alloc_def arg_def
          this_call_enabled [OF en(1)] setConfig_enabled [OF en] discard_def)
  have l: "invoke e w ''setLoadingSpinnerState'' args s =
           (Return JUndefined, w,
            s\<lparr>heap := heap s @ [[(''show'', arg 0 args)]],
              trace := trace s @
                [MgrCall m (MgrSetConfig (JRef (length (heap s))) (JStr ''loading''))]\<rparr>)"
    using invoke_method [OF nd, of e M_setLoadingSpinnerState args s]
    by (simp add: call_method_def setLoadingSpinnerState_def alloc_def
          this_call_enabled [OF en(1)] setConfig_enabled [OF en] discard_def)
      (simp add: arg_def)
  show ?thesis
    by (simp add: r l sc alloc_def) (simp add: arg_def)
qed

theorem reset_and_spinner_are_setConfig_witness:
  "invoke sample_env sample_enabled ''reset'' [] sample_world =
     (Return JUndefined, sample_enabled,
      sample_world\<lparr>heap := sample_heap @ [[(''hasError'', JBool False)]],
        trace := [MgrCall 0 (MgrSetConfig (JRef 9) (JStr ''engine''))]\<rparr>) \<and>
   invoke sample_env sample_enabled ''setLoadingSpinnerState'' [JBool True] sample_world =
     (Return JUndefined, sample_enabled,
      sample_world\<lparr>heap := sample_heap @ [[(''show'', JBool True)]],
        trace := [MgrCall 0 (MgrSetConfig (JRef 9) (JStr ''loading''))]\<rparr>)"
proof -
  have falsy: "\<not> truthy JUndefined" by simp
  have pl: "rd sample_env (heap sample_world) (JRef 0) ''plugins'' \<noteq> JNull"
    by (simp add: sample_plugins)
  have m: "(0::nat) = fresh_mgr (trace sample_world)"
    by (simp add: fresh_mgr_def sample_world_def)
  obtain s1 where ctor:
    "constructor sample_env (JHost 1) (JRef 0) sample_world = (Return sample_enabled, s1)"
    using constructor_enabled [OF sample_ui sample_enabled_flag falsy pl, of "JHost 1"] m
    by (simp add: sample_enabled_def)
  have hp: "heap sample_world = sample_heap" "trace sample_world = []"
    "length sample_heap = 9"
    by (simp_all add: sample_world_def sample_heap_def)
  note r = reset_and_spinner_are_setConfig [OF sample_ui sample_enabled_flag falsy ctor m,
        of "[]" sample_world, THEN conjunct2, THEN conjunct1]
  note l = reset_and_spinner_are_setConfig [OF sample_ui sample_enabled_flag falsy ctor m,
        of "[JBool True]" sample_world, THEN conjunct2, THEN conjunct2, THEN conjunct2]
  from r l show ?thesis by (simp add: hp arg_def)
qed

end
